theory Spec2Isabelle
  imports Complex_Main "HOL-Library.List_Lexorder"
begin

section \<open>JavaScript values used by the store and the service\<close>

text \<open>
  A JavaScript string is a sequence of UTF-16 code units; \<open>length\<close>, \<open>includes\<close>,
  \<open>===\<close> and the relational operators \<open><\<close> and \<open>>=\<close> all work on code units, the
  latter two lexicographically. A string is therefore a list of code-unit values, ordered by
  the lexicographic order of lists. \<open>js\<close> writes an ASCII literal.
\<close>

type_synonym jsstring = "nat list"

definition js :: "string \<Rightarrow> jsstring" where
  "js s = map of_char s"

text \<open>\<open>String(n)\<close> for a non-negative integer: its decimal digits.\<close>

fun jsString :: "nat \<Rightarrow> jsstring" where
  "jsString n = (if n < 10 then [48 + n] else jsString (n div 10) @ [48 + n mod 10])"

declare jsString.simps [simp del]

text \<open>\<open>s.padStart(alvo, c)\<close> with a one-character filler.\<close>

definition padStart :: "nat \<Rightarrow> nat \<Rightarrow> jsstring \<Rightarrow> jsstring" where
  "padStart alvo c s = replicate (alvo - length s) c @ s"

text \<open>\<open>s.includes(el)\<close>: \<open>el\<close> occurs in \<open>s\<close> as a contiguous run of code units.\<close>

fun js_includes :: "jsstring \<Rightarrow> jsstring \<Rightarrow> bool" where
  "js_includes [] el = (el = [])"
| "js_includes (c # cs) el = (take (length el) (c # cs) = el \<or> js_includes cs el)"

text \<open>\<open>xs.join(sep)\<close>.\<close>

fun join :: "jsstring \<Rightarrow> jsstring list \<Rightarrow> jsstring" where
  "join sep [] = []"
| "join sep [x] = x"
| "join sep (x # y # ys) = x @ sep @ join sep (y # ys)"

text \<open>\<open>s.split('T')[0]\<close>: the part of \<open>s\<close> before its first \<open>T\<close> (code unit 84).\<close>

definition split_T_0 :: "jsstring \<Rightarrow> jsstring" where
  "split_T_0 s = takeWhile (\<lambda>c. c \<noteq> 84) s"

text \<open>
  One reading of the clock, \<open>new Date()\<close>, with the four accessors the store uses.
  \<open>toISOString\<close> is in UTC; \<open>getDay\<close>, \<open>getHours\<close> and \<open>getMinutes\<close> are in local time.
  The \<open>new Date()\<close> calls made while one operation runs are taken as the same reading.
\<close>

record Date =
  toISOString :: jsstring
  getDay :: nat
  getHours :: nat
  getMinutes :: nat

text \<open>
  What the code takes from its platform and libraries: the URL test behind
  \<open>z.string().url()\<close>, \<open>String.prototype.toLowerCase\<close>, and the value of
  \<open>new Date().getFullYear()\<close> at the moment the schemas were built.
\<close>

record Ambiente =
  isUrl :: "jsstring \<Rightarrow> bool"
  toLowerCase :: "jsstring \<Rightarrow> jsstring"
  anoAtual :: int

section \<open>Constants (constants/sorveteria/sorveteriaDefaults)\<close>

definition NOME_MIN_LENGTH :: nat where "NOME_MIN_LENGTH = 1"
definition NOME_MAX_LENGTH :: nat where "NOME_MAX_LENGTH = 200"
definition SLOGAN_MAX_LENGTH :: nat where "SLOGAN_MAX_LENGTH = 50"
definition HISTORIA_MIN_LENGTH :: nat where "HISTORIA_MIN_LENGTH = 200"
definition HISTORIA_MAX_LENGTH :: nat where "HISTORIA_MAX_LENGTH = 800"
definition FUNDADORES_MAX_LENGTH :: nat where "FUNDADORES_MAX_LENGTH = 200"
definition DIFERENCIAL_MAX_LENGTH :: nat where "DIFERENCIAL_MAX_LENGTH = 100"
definition MIN_DIFERENCIAIS :: nat where "MIN_DIFERENCIAIS = 3"
definition MAX_DIFERENCIAIS :: nat where "MAX_DIFERENCIAIS = 6"
definition MAX_FOTOS_AMBIENTE :: nat where "MAX_FOTOS_AMBIENTE = 12"
definition FOTO_DESCRICAO_MAX_LENGTH :: nat where "FOTO_DESCRICAO_MAX_LENGTH = 150"
definition DEPOIMENTO_MAX_LENGTH :: nat where "DEPOIMENTO_MAX_LENGTH = 300"
definition MAX_PROMOCOES :: nat where "MAX_PROMOCOES = 3"
definition MISSAO_MAX_LENGTH :: nat where "MISSAO_MAX_LENGTH = 200"
definition VISAO_MAX_LENGTH :: nat where "VISAO_MAX_LENGTH = 200"
definition MAX_VALORES :: nat where "MAX_VALORES = 5"
definition VALOR_MAX_LENGTH :: nat where "VALOR_MAX_LENGTH = 50"

datatype FotoCategory = BALCAO | ATENDIMENTO | EXTERNO | GERAL

datatype StatusModeracao = PENDENTE | APROVADO | REJEITADO

datatype TipoPromocao = DESCONTO | COMBO | BRINDE | ESPECIAL

section \<open>Types (services/sorveteria/sorveteriaTypes)\<close>

record HorarioDia =
  dia_abertura :: jsstring
  dia_fechamento :: jsstring
  dia_fechado :: bool

record HorarioSemana =
  segunda :: HorarioDia
  terca :: HorarioDia
  quarta :: HorarioDia
  quinta :: HorarioDia
  sexta :: HorarioDia
  sabado :: HorarioDia
  domingo :: HorarioDia

record HorarioEspecial =
  esp_data :: jsstring
  esp_descricao :: jsstring
  esp_abertura :: "jsstring option"
  esp_fechamento :: "jsstring option"
  esp_fechado :: bool

record FotoAmbiente =
  foto_id :: nat
  foto_url :: jsstring
  foto_descricao :: "jsstring option"
  foto_categoria :: FotoCategory
  foto_ordem :: nat

record Depoimento =
  dep_id :: nat
  dep_nomeCliente :: jsstring
  dep_texto :: jsstring
  dep_avaliacao :: int
  dep_statusModeracao :: StatusModeracao
  dep_dataCriacao :: jsstring

record Promocao =
  promo_id :: nat
  promo_titulo :: jsstring
  promo_descricao :: jsstring
  promo_dataValidade :: jsstring
  promo_prioridade :: int
  promo_tipo :: TipoPromocao
  promo_ativa :: bool

datatype StatusFuncionamento = Aberto | Fechado | Abrindo_em_breve

text \<open>
  \<open>avaliacaoMedia\<close> is a JavaScript number or \<open>null\<close>. Numbers are modelled by the exact
  rational they denote: the rounding error of the double-precision quotient is not modelled.
\<close>

record SorveteriaEntity =
  ent_id :: nat
  nomeSorveteria :: jsstring
  logotipo :: jsstring
  slogan :: "jsstring option"
  historiaSorveteria :: jsstring
  anoFundacao :: int
  diferenciais :: "jsstring list"
  fundadores :: jsstring
  horariosSemana :: HorarioSemana
  horariosEspeciais :: "HorarioEspecial list"
  statusFuncionamento :: StatusFuncionamento
  fotosAmbiente :: "FotoAmbiente list"
  depoimentos :: "Depoimento list"
  avaliacaoMedia :: "rat option"
  totalAvaliacoes :: nat
  promocoesAtivas :: "Promocao list"
  missao :: "jsstring option"
  visao :: "jsstring option"
  valores :: "jsstring list"
  dateCreated :: jsstring
  dateModified :: jsstring

text \<open>\<open>Omit<SorveteriaEntity, 'id' | 'dateCreated' | 'dateModified'>\<close>, the argument of \<open>set\<close>.\<close>

record SorveteriaDados =
  d_nomeSorveteria :: jsstring
  d_logotipo :: jsstring
  d_slogan :: "jsstring option"
  d_historiaSorveteria :: jsstring
  d_anoFundacao :: int
  d_diferenciais :: "jsstring list"
  d_fundadores :: jsstring
  d_horariosSemana :: HorarioSemana
  d_horariosEspeciais :: "HorarioEspecial list"
  d_statusFuncionamento :: StatusFuncionamento
  d_fotosAmbiente :: "FotoAmbiente list"
  d_depoimentos :: "Depoimento list"
  d_avaliacaoMedia :: "rat option"
  d_totalAvaliacoes :: nat
  d_promocoesAtivas :: "Promocao list"
  d_missao :: "jsstring option"
  d_visao :: "jsstring option"
  d_valores :: "jsstring list"

text \<open>
  The request bodies, as objects of the shape their schema expects; a body of another shape
  is rejected by \<open>safeParse\<close> like one that breaks a bound, and a key that the schema
  does not name is dropped by it, so the parsed data has the keys below and no other. An
  optional key is an \<open>option\<close> (\<open>None\<close>: the key is absent); where the schema is also
  nullable and the code tells \<open>null\<close> from absent (the partial update), the value is
  an \<open>option\<close> again.
\<close>

record CreateInput =
  c_nomeSorveteria :: jsstring
  c_logotipo :: jsstring
  c_slogan :: "jsstring option"
  c_historiaSorveteria :: jsstring
  c_anoFundacao :: int
  c_diferenciais :: "jsstring list"
  c_fundadores :: jsstring
  c_horariosSemana :: HorarioSemana
  c_horariosEspeciais :: "HorarioEspecial list option"
  c_missao :: "jsstring option"
  c_visao :: "jsstring option"
  c_valores :: "jsstring list option"

record UpdateInput =
  u_nomeSorveteria :: "jsstring option"
  u_logotipo :: "jsstring option"
  u_slogan :: "jsstring option option"
  u_historiaSorveteria :: "jsstring option"
  u_anoFundacao :: "int option"
  u_diferenciais :: "jsstring list option"
  u_fundadores :: "jsstring option"
  u_horariosSemana :: "HorarioSemana option"
  u_horariosEspeciais :: "HorarioEspecial list option"
  u_missao :: "jsstring option option"
  u_visao :: "jsstring option option"
  u_valores :: "jsstring list option"

record FotoCreateInput =
  f_url :: jsstring
  f_descricao :: "jsstring option"
  f_categoria :: jsstring

record FotoDados =
  fd_url :: jsstring
  fd_descricao :: "jsstring option"
  fd_categoria :: FotoCategory

record DepoimentoCreateInput =
  dc_nomeCliente :: jsstring
  dc_texto :: jsstring
  dc_avaliacao :: int

record PromocaoCreateInput =
  pc_titulo :: jsstring
  pc_descricao :: jsstring
  pc_dataValidade :: jsstring
  pc_prioridade :: int
  pc_tipo :: jsstring

record PromocaoDados =
  pd_titulo :: jsstring
  pd_descricao :: jsstring
  pd_dataValidade :: jsstring
  pd_prioridade :: int
  pd_tipo :: TipoPromocao

section \<open>Validation schemas (services/sorveteria/sorveteriaValidation)\<close>

text \<open>
  The character classes of the patterns: \<open>[lo-hi]\<close> on code units; the digit class is
  \<open>[0-9]\<close>.
\<close>

definition entre :: "nat \<Rightarrow> nat \<Rightarrow> nat \<Rightarrow> bool" where
  "entre lo hi c = (lo \<le> c \<and> c \<le> hi)"

definition digito :: "nat \<Rightarrow> bool" where
  "digito c = entre 48 57 c"

text \<open>
  \<open>/^([0-1]?[0-9]|2[0-3]):[0-5][0-9]$/\<close>. The pattern is anchored at both ends (no
  \<open>m\<close> flag, so \<open>$\<close> is the end of the input): it matches the strings made of an hour part,
  a colon (58) and two minute digits. The hour part is either \<open>[0-1]?[0-9]\<close>, one digit
  or a \<open>0\<close>/\<open>1\<close> followed by a digit, or \<open>2[0-3]\<close>.
\<close>

fun horaRegex :: "jsstring \<Rightarrow> bool" where
  "horaRegex [a, b, c, d, e] =
     (((entre 48 49 a \<and> digito b) \<or> (a = 50 \<and> entre 48 51 b)) \<and> c = 58 \<and> entre 48 53 d \<and> digito e)"
| "horaRegex [b, c, d, e] = (digito b \<and> c = 58 \<and> entre 48 53 d \<and> digito e)"
| "horaRegex _ = False"

text \<open>
  The date pattern: four digits, a hyphen (code unit 45), two digits, a hyphen, two digits,
  anchored at both ends.
\<close>

fun dataRegex :: "jsstring \<Rightarrow> bool" where
  "dataRegex [a, b, c, d, e, f, g, h, i, j] =
     (digito a \<and> digito b \<and> digito c \<and> digito d \<and> e = 45 \<and> digito f \<and> digito g \<and> h = 45 \<and>
      digito i \<and> digito j)"
| "dataRegex _ = False"

definition horarioDiaSchema :: "HorarioDia \<Rightarrow> bool" where
  "horarioDiaSchema h = (horaRegex (dia_abertura h) \<and> horaRegex (dia_fechamento h))"

definition horariosSemanaSchema :: "HorarioSemana \<Rightarrow> bool" where
  "horariosSemanaSchema w =
     (horarioDiaSchema (segunda w) \<and> horarioDiaSchema (terca w) \<and> horarioDiaSchema (quarta w) \<and>
      horarioDiaSchema (quinta w) \<and> horarioDiaSchema (sexta w) \<and> horarioDiaSchema (sabado w) \<and>
      horarioDiaSchema (domingo w))"

text \<open>\<open>schema.nullable()\<close> and \<open>schema.optional()\<close>: \<open>None\<close> passes.\<close>

definition nullable :: "('a \<Rightarrow> bool) \<Rightarrow> 'a option \<Rightarrow> bool" where
  "nullable p v = (case v of None \<Rightarrow> True | Some x \<Rightarrow> p x)"

definition maxLen :: "nat \<Rightarrow> 'a list \<Rightarrow> bool" where
  "maxLen n s = (length s \<le> n)"

definition minLen :: "nat \<Rightarrow> 'a list \<Rightarrow> bool" where
  "minLen n s = (n \<le> length s)"

definition horarioEspecialSchema :: "HorarioEspecial \<Rightarrow> bool" where
  "horarioEspecialSchema h =
     (dataRegex (esp_data h) \<and> minLen 1 (esp_descricao h) \<and> maxLen 200 (esp_descricao h) \<and>
      nullable horaRegex (esp_abertura h) \<and> nullable horaRegex (esp_fechamento h))"

definition createSchema :: "Ambiente \<Rightarrow> CreateInput \<Rightarrow> bool" where
  "createSchema amb c =
     (minLen NOME_MIN_LENGTH (c_nomeSorveteria c) \<and> maxLen NOME_MAX_LENGTH (c_nomeSorveteria c) \<and>
      isUrl amb (c_logotipo c) \<and>
      nullable (maxLen SLOGAN_MAX_LENGTH) (c_slogan c) \<and>
      minLen HISTORIA_MIN_LENGTH (c_historiaSorveteria c) \<and>
      maxLen HISTORIA_MAX_LENGTH (c_historiaSorveteria c) \<and>
      1900 \<le> c_anoFundacao c \<and> c_anoFundacao c \<le> anoAtual amb \<and>
      list_all (maxLen DIFERENCIAL_MAX_LENGTH) (c_diferenciais c) \<and>
      minLen MIN_DIFERENCIAIS (c_diferenciais c) \<and> maxLen MAX_DIFERENCIAIS (c_diferenciais c) \<and>
      maxLen FUNDADORES_MAX_LENGTH (c_fundadores c) \<and>
      horariosSemanaSchema (c_horariosSemana c) \<and>
      nullable (list_all horarioEspecialSchema) (c_horariosEspeciais c) \<and>
      nullable (maxLen MISSAO_MAX_LENGTH) (c_missao c) \<and>
      nullable (maxLen VISAO_MAX_LENGTH) (c_visao c) \<and>
      nullable (\<lambda>vs. list_all (maxLen VALOR_MAX_LENGTH) vs \<and> maxLen MAX_VALORES vs) (c_valores c))"

definition updateSchema :: "Ambiente \<Rightarrow> UpdateInput \<Rightarrow> bool" where
  "updateSchema amb u =
     (nullable (\<lambda>s. minLen NOME_MIN_LENGTH s \<and> maxLen NOME_MAX_LENGTH s) (u_nomeSorveteria u) \<and>
      nullable (isUrl amb) (u_logotipo u) \<and>
      nullable (nullable (maxLen SLOGAN_MAX_LENGTH)) (u_slogan u) \<and>
      nullable (\<lambda>s. minLen HISTORIA_MIN_LENGTH s \<and> maxLen HISTORIA_MAX_LENGTH s)
        (u_historiaSorveteria u) \<and>
      nullable (\<lambda>a. 1900 \<le> a \<and> a \<le> anoAtual amb) (u_anoFundacao u) \<and>
      nullable (\<lambda>ds. list_all (maxLen DIFERENCIAL_MAX_LENGTH) ds \<and> minLen MIN_DIFERENCIAIS ds \<and>
                   maxLen MAX_DIFERENCIAIS ds) (u_diferenciais u) \<and>
      nullable (maxLen FUNDADORES_MAX_LENGTH) (u_fundadores u) \<and>
      nullable horariosSemanaSchema (u_horariosSemana u) \<and>
      nullable (list_all horarioEspecialSchema) (u_horariosEspeciais u) \<and>
      nullable (nullable (maxLen MISSAO_MAX_LENGTH)) (u_missao u) \<and>
      nullable (nullable (maxLen VISAO_MAX_LENGTH)) (u_visao u) \<and>
      nullable (\<lambda>vs. list_all (maxLen VALOR_MAX_LENGTH) vs \<and> maxLen MAX_VALORES vs) (u_valores u))"

text \<open>\<open>z.enum([...])\<close> over the photo categories, the promotion types and the moderation statuses.\<close>

definition enumFotoCategory :: "jsstring \<Rightarrow> FotoCategory option" where
  "enumFotoCategory s =
     (if s = js ''balcao'' then Some BALCAO
      else if s = js ''atendimento'' then Some ATENDIMENTO
      else if s = js ''externo'' then Some EXTERNO
      else if s = js ''geral'' then Some GERAL
      else None)"

definition enumTipoPromocao :: "jsstring \<Rightarrow> TipoPromocao option" where
  "enumTipoPromocao s =
     (if s = js ''desconto'' then Some DESCONTO
      else if s = js ''combo'' then Some COMBO
      else if s = js ''brinde'' then Some BRINDE
      else if s = js ''especial'' then Some ESPECIAL
      else None)"

definition enumStatusModeracao :: "jsstring \<Rightarrow> StatusModeracao option" where
  "enumStatusModeracao s =
     (if s = js ''pendente'' then Some PENDENTE
      else if s = js ''aprovado'' then Some APROVADO
      else if s = js ''rejeitado'' then Some REJEITADO
      else None)"

text \<open>
  The three schemas below return the parsed data (\<open>validation.data\<close>) when \<open>safeParse\<close>
  succeeds and \<open>None\<close> when it fails.
\<close>

definition fotoCreateSchema :: "Ambiente \<Rightarrow> FotoCreateInput \<Rightarrow> FotoDados option" where
  "fotoCreateSchema amb f =
     (case enumFotoCategory (f_categoria f) of
        None \<Rightarrow> None
      | Some cat \<Rightarrow>
          if isUrl amb (f_url f) \<and> nullable (maxLen FOTO_DESCRICAO_MAX_LENGTH) (f_descricao f)
          then Some \<lparr>fd_url = f_url f, fd_descricao = f_descricao f, fd_categoria = cat\<rparr>
          else None)"

definition depoimentoCreateSchema :: "DepoimentoCreateInput \<Rightarrow> bool" where
  "depoimentoCreateSchema d =
     (minLen 1 (dc_nomeCliente d) \<and> maxLen 100 (dc_nomeCliente d) \<and>
      minLen 1 (dc_texto d) \<and> maxLen DEPOIMENTO_MAX_LENGTH (dc_texto d) \<and>
      1 \<le> dc_avaliacao d \<and> dc_avaliacao d \<le> 5)"

definition promocaoCreateSchema :: "PromocaoCreateInput \<Rightarrow> PromocaoDados option" where
  "promocaoCreateSchema p =
     (case enumTipoPromocao (pc_tipo p) of
        None \<Rightarrow> None
      | Some t \<Rightarrow>
          if minLen 1 (pc_titulo p) \<and> maxLen 200 (pc_titulo p) \<and>
             minLen 1 (pc_descricao p) \<and> maxLen 500 (pc_descricao p) \<and>
             dataRegex (pc_dataValidade p) \<and> 1 \<le> pc_prioridade p \<and> pc_prioridade p \<le> 5
          then Some \<lparr>pd_titulo = pc_titulo p, pd_descricao = pc_descricao p,
                     pd_dataValidade = pc_dataValidade p, pd_prioridade = pc_prioridade p,
                     pd_tipo = t\<rparr>
          else None)"

definition paramsSchema :: "int \<Rightarrow> nat option" where
  "paramsSchema i = (if 0 < i then Some (nat i) else None)"

section \<open>The in-memory store (instances/sorveteria/sorveteriaStore)\<close>

record SorveteriaStore =
  sorveteria :: "SorveteriaEntity option"
  fotosCounter :: nat
  depoimentosCounter :: nat
  promocoesCounter :: nat

definition store_inicial :: SorveteriaStore where
  "store_inicial = \<lparr>sorveteria = None, fotosCounter = 0, depoimentosCounter = 0, promocoesCounter = 0\<rparr>"

definition store_get :: "SorveteriaStore \<Rightarrow> SorveteriaEntity option" where
  "store_get s = sorveteria s"

text \<open>The object literal \<open>{ id, ...data, dateCreated, dateModified }\<close>.\<close>

definition entidade :: "nat \<Rightarrow> jsstring \<Rightarrow> jsstring \<Rightarrow> SorveteriaDados \<Rightarrow> SorveteriaEntity" where
  "entidade i criado modificado d =
     \<lparr>ent_id = i,
      nomeSorveteria = d_nomeSorveteria d,
      logotipo = d_logotipo d,
      slogan = d_slogan d,
      historiaSorveteria = d_historiaSorveteria d,
      anoFundacao = d_anoFundacao d,
      diferenciais = d_diferenciais d,
      fundadores = d_fundadores d,
      horariosSemana = d_horariosSemana d,
      horariosEspeciais = d_horariosEspeciais d,
      statusFuncionamento = d_statusFuncionamento d,
      fotosAmbiente = d_fotosAmbiente d,
      depoimentos = d_depoimentos d,
      avaliacaoMedia = d_avaliacaoMedia d,
      totalAvaliacoes = d_totalAvaliacoes d,
      promocoesAtivas = d_promocoesAtivas d,
      missao = d_missao d,
      visao = d_visao d,
      valores = d_valores d,
      dateCreated = criado,
      dateModified = modificado\<rparr>"

text \<open>
  \<open>set\<close>: the first call creates the record with id 1; a later call spreads \<open>data\<close> over
  the existing record, which keeps its \<open>id\<close> and \<open>dateCreated\<close> only, every other key
  being one of \<open>data\<close>.
\<close>

definition store_set ::
  "Date \<Rightarrow> SorveteriaDados \<Rightarrow> SorveteriaStore \<Rightarrow> SorveteriaEntity \<times> SorveteriaStore" where
  "store_set agora d s =
     (let now = toISOString agora;
          e = (case sorveteria s of
                 None \<Rightarrow> entidade 1 now now d
               | Some velho \<Rightarrow> entidade (ent_id velho) (dateCreated velho) now d)
      in (e, s\<lparr>sorveteria := Some e\<rparr>))"

text \<open>\<open>{ ...this.sorveteria, ...data }\<close> for the keys the update schema lets through.\<close>

definition ou :: "'a option \<Rightarrow> 'a \<Rightarrow> 'a" where
  "ou v velho = (case v of None \<Rightarrow> velho | Some x \<Rightarrow> x)"

definition mesclar :: "UpdateInput \<Rightarrow> SorveteriaEntity \<Rightarrow> SorveteriaEntity" where
  "mesclar u e =
     e\<lparr>nomeSorveteria := ou (u_nomeSorveteria u) (nomeSorveteria e),
       logotipo := ou (u_logotipo u) (logotipo e),
       slogan := ou (u_slogan u) (slogan e),
       historiaSorveteria := ou (u_historiaSorveteria u) (historiaSorveteria e),
       anoFundacao := ou (u_anoFundacao u) (anoFundacao e),
       diferenciais := ou (u_diferenciais u) (diferenciais e),
       fundadores := ou (u_fundadores u) (fundadores e),
       horariosSemana := ou (u_horariosSemana u) (horariosSemana e),
       horariosEspeciais := ou (u_horariosEspeciais u) (horariosEspeciais e),
       missao := ou (u_missao u) (missao e),
       visao := ou (u_visao u) (visao e),
       valores := ou (u_valores u) (valores e)\<rparr>"

definition store_update ::
  "Date \<Rightarrow> UpdateInput \<Rightarrow> SorveteriaStore \<Rightarrow> SorveteriaEntity option \<times> SorveteriaStore" where
  "store_update agora u s =
     (case sorveteria s of
        None \<Rightarrow> (None, s)
      | Some e \<Rightarrow>
          (let e' = (mesclar u e)\<lparr>dateModified := toISOString agora\<rparr>
           in (Some e', s\<lparr>sorveteria := Some e'\<rparr>)))"

definition addFoto ::
  "Date \<Rightarrow> FotoDados \<Rightarrow> SorveteriaStore \<Rightarrow> FotoAmbiente option \<times> SorveteriaStore" where
  "addFoto agora foto s =
     (case sorveteria s of
        None \<Rightarrow> (None, s)
      | Some e \<Rightarrow>
          (let contador = fotosCounter s + 1;
               newFoto = \<lparr>foto_id = contador, foto_url = fd_url foto,
                          foto_descricao = fd_descricao foto, foto_categoria = fd_categoria foto,
                          foto_ordem = length (fotosAmbiente e) + 1\<rparr>;
               e' = e\<lparr>fotosAmbiente := fotosAmbiente e @ [newFoto],
                       dateModified := toISOString agora\<rparr>
           in (Some newFoto, s\<lparr>sorveteria := Some e', fotosCounter := contador\<rparr>)))"

text \<open>\<open>xs.findIndex(p)\<close>; \<open>None\<close> is the result \<open>-1\<close>.\<close>

fun findIndex :: "('a \<Rightarrow> bool) \<Rightarrow> 'a list \<Rightarrow> nat option" where
  "findIndex p [] = None"
| "findIndex p (x # xs) = (if p x then Some 0 else map_option Suc (findIndex p xs))"

text \<open>\<open>xs.splice(i, 1)\<close>, the list it leaves.\<close>

definition splice1 :: "nat \<Rightarrow> 'a list \<Rightarrow> 'a list" where
  "splice1 i xs = take i xs @ drop (i + 1) xs"

definition removeFoto :: "Date \<Rightarrow> nat \<Rightarrow> SorveteriaStore \<Rightarrow> bool \<times> SorveteriaStore" where
  "removeFoto agora fotoId s =
     (case sorveteria s of
        None \<Rightarrow> (False, s)
      | Some e \<Rightarrow>
          (case findIndex (\<lambda>f. foto_id f = fotoId) (fotosAmbiente e) of
             None \<Rightarrow> (False, s)
           | Some i \<Rightarrow>
               (True, s\<lparr>sorveteria :=
                          Some (e\<lparr>fotosAmbiente := splice1 i (fotosAmbiente e),
                                   dateModified := toISOString agora\<rparr>)\<rparr>)))"

text \<open>
  \<open>parseFloat(x.toFixed(1))\<close>. \<open>toFixed(1)\<close> works on the absolute value and puts the sign
  back; it takes the integer \<open>n\<close> for which \<open>n / 10\<close> is nearest to the value, the larger
  \<open>n\<close> of two, and prints the value itself from \<open>10^21\<close> on. \<open>parseFloat\<close> reads the
  printed number back.
\<close>

definition parseFloat_toFixed_1 :: "rat \<Rightarrow> rat" where
  "parseFloat_toFixed_1 x =
     (if 10 ^ 21 \<le> \<bar>x\<bar> then x else sgn x * (of_int \<lfloor>10 * \<bar>x\<bar> + 1 / 2\<rfloor> / 10))"

definition recalcularAvaliacaoMedia :: "SorveteriaStore \<Rightarrow> SorveteriaStore" where
  "recalcularAvaliacaoMedia s =
     (case sorveteria s of
        None \<Rightarrow> s
      | Some e \<Rightarrow>
          (let aprovados = filter (\<lambda>d. dep_statusModeracao d = APROVADO) (depoimentos e)
           in if length aprovados = 0
              then s\<lparr>sorveteria := Some (e\<lparr>avaliacaoMedia := None, totalAvaliacoes := 0\<rparr>)\<rparr>
              else
                (let soma = foldl (\<lambda>acc d. acc + dep_avaliacao d) 0 aprovados
                 in s\<lparr>sorveteria :=
                        Some (e\<lparr>avaliacaoMedia :=
                                   Some (parseFloat_toFixed_1 (of_int soma / of_nat (length aprovados))),
                                 totalAvaliacoes := length aprovados\<rparr>)\<rparr>)))"

definition addDepoimento ::
  "Date \<Rightarrow> DepoimentoCreateInput \<Rightarrow> SorveteriaStore \<Rightarrow> Depoimento option \<times> SorveteriaStore" where
  "addDepoimento agora depoimento s =
     (case sorveteria s of
        None \<Rightarrow> (None, s)
      | Some e \<Rightarrow>
          (let contador = depoimentosCounter s + 1;
               newDepoimento = \<lparr>dep_id = contador, dep_nomeCliente = dc_nomeCliente depoimento,
                                dep_texto = dc_texto depoimento,
                                dep_avaliacao = dc_avaliacao depoimento,
                                dep_statusModeracao = PENDENTE,
                                dep_dataCriacao = toISOString agora\<rparr>;
               e' = e\<lparr>depoimentos := depoimentos e @ [newDepoimento]\<rparr>
           in (Some newDepoimento,
               recalcularAvaliacaoMedia (s\<lparr>sorveteria := Some e', depoimentosCounter := contador\<rparr>))))"

text \<open>
  \<open>find\<close> gives the first testimonial with the id, and the assignment to its
  \<open>statusModeracao\<close> changes that element of the stored list.
\<close>

definition updateDepoimentoStatus ::
  "nat \<Rightarrow> StatusModeracao \<Rightarrow> SorveteriaStore \<Rightarrow> Depoimento option \<times> SorveteriaStore" where
  "updateDepoimentoStatus depoimentoId status s =
     (case sorveteria s of
        None \<Rightarrow> (None, s)
      | Some e \<Rightarrow>
          (case findIndex (\<lambda>d. dep_id d = depoimentoId) (depoimentos e) of
             None \<Rightarrow> (None, s)
           | Some i \<Rightarrow>
               (let depoimento = (depoimentos e ! i)\<lparr>dep_statusModeracao := status\<rparr>;
                    e' = e\<lparr>depoimentos := (depoimentos e)[i := depoimento]\<rparr>
                in (Some depoimento, recalcularAvaliacaoMedia (s\<lparr>sorveteria := Some e'\<rparr>)))))"

definition addPromocao ::
  "Date \<Rightarrow> PromocaoDados \<Rightarrow> SorveteriaStore \<Rightarrow> Promocao option \<times> SorveteriaStore" where
  "addPromocao agora promocao s =
     (case sorveteria s of
        None \<Rightarrow> (None, s)
      | Some e \<Rightarrow>
          (let contador = promocoesCounter s + 1;
               newPromocao = \<lparr>promo_id = contador, promo_titulo = pd_titulo promocao,
                              promo_descricao = pd_descricao promocao,
                              promo_dataValidade = pd_dataValidade promocao,
                              promo_prioridade = pd_prioridade promocao,
                              promo_tipo = pd_tipo promocao, promo_ativa = True\<rparr>;
               e' = e\<lparr>promocoesAtivas := promocoesAtivas e @ [newPromocao],
                       dateModified := toISOString agora\<rparr>
           in (Some newPromocao, s\<lparr>sorveteria := Some e', promocoesCounter := contador\<rparr>)))"

definition removePromocoesVencidas :: "Date \<Rightarrow> SorveteriaStore \<Rightarrow> nat \<times> SorveteriaStore" where
  "removePromocoesVencidas agora s =
     (case sorveteria s of
        None \<Rightarrow> (0, s)
      | Some e \<Rightarrow>
          (let hoje = split_T_0 (toISOString agora);
               antes = length (promocoesAtivas e);
               e' = e\<lparr>promocoesAtivas := filter (\<lambda>p. promo_dataValidade p \<ge> hoje) (promocoesAtivas e)\<rparr>;
               removidas = antes - length (promocoesAtivas e');
               e'' = (if removidas > 0 then e'\<lparr>dateModified := toISOString agora\<rparr> else e')
           in (removidas, s\<lparr>sorveteria := Some e''\<rparr>)))"

text \<open>
  The day names \<open>['domingo', 'segunda', ..., 'sabado'][agora.getDay()]\<close> and the property
  of \<open>horariosSemana\<close> each of them names; an index out of the array gives \<open>undefined\<close>,
  here \<open>None\<close>.
\<close>

definition diaSemana :: "nat \<Rightarrow> (HorarioSemana \<Rightarrow> HorarioDia) option" where
  "diaSemana n =
     (if n < 7 then Some ([domingo, segunda, terca, quarta, quinta, sexta, sabado] ! n) else None)"

definition horaAtual :: "Date \<Rightarrow> jsstring" where
  "horaAtual agora =
     padStart 2 48 (jsString (getHours agora)) @ [58] @ padStart 2 48 (jsString (getMinutes agora))"

definition dataAtual :: "Date \<Rightarrow> jsstring" where
  "dataAtual agora = split_T_0 (toISOString agora)"

text \<open>The truth value of a \<open>string | null\<close>: \<open>null\<close> and the empty string are false.\<close>

definition truthy :: "jsstring option \<Rightarrow> bool" where
  "truthy v = (case v of None \<Rightarrow> False | Some x \<Rightarrow> x \<noteq> [])"

text \<open>
  The block under \<open>// Check regular hours\<close>. Reading \<open>fechado\<close> of an undefined
  \<open>horarioDia\<close> throws a TypeError: the result \<open>None\<close>.
\<close>

definition horarioRegular :: "Date \<Rightarrow> SorveteriaEntity \<Rightarrow> StatusFuncionamento option" where
  "horarioRegular agora e =
     (case diaSemana (getDay agora) of
        None \<Rightarrow> None
      | Some campo \<Rightarrow>
          (let horarioDia = campo (horariosSemana e)
           in if dia_fechado horarioDia then Some Fechado
              else if horaAtual agora \<ge> dia_abertura horarioDia \<and>
                      horaAtual agora < dia_fechamento horarioDia
              then Some Aberto
              else Some Fechado))"

text \<open>
  The status that \<open>updateStatusFuncionamento\<close> assigns: special hours first, then the
  regular hours.
\<close>

definition novoStatus :: "Date \<Rightarrow> SorveteriaEntity \<Rightarrow> StatusFuncionamento option" where
  "novoStatus agora e =
     (case find (\<lambda>h. esp_data h = dataAtual agora) (horariosEspeciais e) of
        None \<Rightarrow> horarioRegular agora e
      | Some horarioEspecial \<Rightarrow>
          if esp_fechado horarioEspecial then Some Fechado
          else if truthy (esp_abertura horarioEspecial) \<and> truthy (esp_fechamento horarioEspecial)
          then (if horaAtual agora \<ge> the (esp_abertura horarioEspecial) \<and>
                   horaAtual agora < the (esp_fechamento horarioEspecial)
                then Some Aberto
                else Some Fechado)
          else horarioRegular agora e)"

text \<open>
  \<open>updateStatusFuncionamento\<close> returns nothing and changes \<open>statusFuncionamento\<close> only;
  \<open>None\<close> is the TypeError of \<open>horarioRegular\<close>, which leaves the store as it was.
\<close>

definition updateStatusFuncionamento :: "Date \<Rightarrow> SorveteriaStore \<Rightarrow> SorveteriaStore option" where
  "updateStatusFuncionamento agora s =
     (case sorveteria s of
        None \<Rightarrow> Some s
      | Some e \<Rightarrow>
          (case novoStatus agora e of
             None \<Rightarrow> None
           | Some st \<Rightarrow> Some (s\<lparr>sorveteria := Some (e\<lparr>statusFuncionamento := st\<rparr>)\<rparr>)))"

definition store_clear :: "SorveteriaStore \<Rightarrow> SorveteriaStore" where
  "store_clear s = store_inicial"

section \<open>The service (services/sorveteria/sorveteriaService)\<close>

datatype ErrorCode = VALIDATION_ERROR | NOT_FOUND | LIMIT_EXCEEDED | PRIORITY_CONFLICT

text \<open>
  What an operation throws: a \<open>ServiceError\<close> with its code, message and HTTP status (the
  validation details are left out), or the TypeError of the status recompute.
\<close>

datatype Falha = ServiceError ErrorCode jsstring nat | TypeError

text \<open>
  An operation returns its value or throws, and leaves the store in some state: the result
  of a call is the pair of both.
\<close>

type_synonym 'a resultado = "(Falha + 'a) \<times> SorveteriaStore"

definition sorveteriaGet :: "Date \<Rightarrow> SorveteriaStore \<Rightarrow> SorveteriaEntity option resultado" where
  "sorveteriaGet agora s =
     (case store_get s of
        None \<Rightarrow> (Inl (ServiceError NOT_FOUND (js ''Sorveteria information not found'') 404), s)
      | Some e \<Rightarrow>
          (case updateStatusFuncionamento agora s of
             None \<Rightarrow> (Inl TypeError, s)
           | Some s' \<Rightarrow> (Inr (store_get s'), s')))"

text \<open>\<open>v || null\<close> and \<open>v || []\<close>: an empty string counts as absent, an empty list does not.\<close>

definition ou_null :: "jsstring option \<Rightarrow> jsstring option" where
  "ou_null v = (if truthy v then v else None)"

definition ou_vazio :: "'a list option \<Rightarrow> 'a list" where
  "ou_vazio v = (case v of None \<Rightarrow> [] | Some xs \<Rightarrow> xs)"

text \<open>
  The two required word lists. The c with cedilla and the a with tilde of the second word
  are the code units 231 and 227; the o with acute accent of the first message below is 243.
\<close>

definition requiredElements :: "jsstring list" where
  "requiredElements = [js ''origem'', js ''tradi'' @ [231, 227] @ js ''o'', js ''qualidade'']"

definition requiredDiferenciais :: "jsstring list" where
  "requiredDiferenciais = [js ''qualidade'', js ''tradi'' @ [231, 227] @ js ''o'', js ''atendimento'']"

definition missingElements :: "Ambiente \<Rightarrow> CreateInput \<Rightarrow> jsstring list" where
  "missingElements amb params =
     (let historiaLower = toLowerCase amb (c_historiaSorveteria params)
      in filter (\<lambda>el. \<not> js_includes historiaLower el) requiredElements)"

definition missingDiferenciais :: "Ambiente \<Rightarrow> CreateInput \<Rightarrow> jsstring list" where
  "missingDiferenciais amb params =
     (let diferenciais = map (toLowerCase amb) (c_diferenciais params)
      in filter (\<lambda>req. \<not> list_ex (\<lambda>d. js_includes d req) diferenciais) requiredDiferenciais)"

definition sorveteriaCreateOrUpdate ::
  "Ambiente \<Rightarrow> Date \<Rightarrow> CreateInput \<Rightarrow> SorveteriaStore \<Rightarrow> SorveteriaEntity resultado" where
  "sorveteriaCreateOrUpdate amb agora body s =
     (if \<not> createSchema amb body
      then (Inl (ServiceError VALIDATION_ERROR (js ''Validation failed'') 400), s)
      else if length (missingElements amb body) > 0
      then (Inl (ServiceError VALIDATION_ERROR
                  (js ''Hist'' @ [243] @ js ''ria deve incluir: '' @
                   join (js '', '') (missingElements amb body)) 400), s)
      else if length (missingDiferenciais amb body) > 0
      then (Inl (ServiceError VALIDATION_ERROR
                  (js ''Diferenciais devem incluir: '' @
                   join (js '', '') (missingDiferenciais amb body)) 400), s)
      else
        (let (newSorveteria, s1) =
               store_set agora
                 \<lparr>d_nomeSorveteria = c_nomeSorveteria body,
                  d_logotipo = c_logotipo body,
                  d_slogan = ou_null (c_slogan body),
                  d_historiaSorveteria = c_historiaSorveteria body,
                  d_anoFundacao = c_anoFundacao body,
                  d_diferenciais = c_diferenciais body,
                  d_fundadores = c_fundadores body,
                  d_horariosSemana = c_horariosSemana body,
                  d_horariosEspeciais = ou_vazio (c_horariosEspeciais body),
                  d_statusFuncionamento = Fechado,
                  d_fotosAmbiente = [],
                  d_depoimentos = [],
                  d_avaliacaoMedia = None,
                  d_totalAvaliacoes = 0,
                  d_promocoesAtivas = [],
                  d_missao = ou_null (c_missao body),
                  d_visao = ou_null (c_visao body),
                  d_valores = ou_vazio (c_valores body)\<rparr> s
         in case updateStatusFuncionamento agora s1 of
              None \<Rightarrow> (Inl TypeError, s1)
            | Some s2 \<Rightarrow>
                (case store_get s2 of
                   None \<Rightarrow> (Inr newSorveteria, s2)
                 | Some e \<Rightarrow> (Inr e, s2))))"

text \<open>
  \<open>newSorveteria\<close> and, below, \<open>updated\<close> are the stored object itself, so the value
  returned after the status recompute is the stored record with its new status.
\<close>

definition sorveteriaUpdate ::
  "Ambiente \<Rightarrow> Date \<Rightarrow> UpdateInput \<Rightarrow> SorveteriaStore \<Rightarrow> SorveteriaEntity resultado" where
  "sorveteriaUpdate amb agora body s =
     (if \<not> updateSchema amb body
      then (Inl (ServiceError VALIDATION_ERROR (js ''Validation failed'') 400), s)
      else
        (case store_get s of
           None \<Rightarrow> (Inl (ServiceError NOT_FOUND (js ''Sorveteria not found'') 404), s)
         | Some existing \<Rightarrow>
             (case store_update agora body s of
                (None, s1) \<Rightarrow> (Inl (ServiceError NOT_FOUND (js ''Sorveteria not found'') 404), s1)
              | (Some updated, s1) \<Rightarrow>
                  (case updateStatusFuncionamento agora s1 of
                     None \<Rightarrow> (Inl TypeError, s1)
                   | Some s2 \<Rightarrow>
                       (case store_get s2 of
                          None \<Rightarrow> (Inr updated, s2)
                        | Some e \<Rightarrow> (Inr e, s2))))))"

definition sorveteriaAddFoto ::
  "Ambiente \<Rightarrow> Date \<Rightarrow> FotoCreateInput \<Rightarrow> SorveteriaStore \<Rightarrow> FotoAmbiente resultado" where
  "sorveteriaAddFoto amb agora body s =
     (case fotoCreateSchema amb body of
        None \<Rightarrow> (Inl (ServiceError VALIDATION_ERROR (js ''Validation failed'') 400), s)
      | Some dados \<Rightarrow>
          (case store_get s of
             None \<Rightarrow> (Inl (ServiceError NOT_FOUND (js ''Sorveteria not found'') 404), s)
           | Some e \<Rightarrow>
               if length (fotosAmbiente e) \<ge> MAX_FOTOS_AMBIENTE
               then (Inl (ServiceError LIMIT_EXCEEDED
                           (js ''Maximum of '' @ jsString MAX_FOTOS_AMBIENTE @ js '' photos allowed'')
                           400), s)
               else
                 (case addFoto agora dados s of
                    (None, s1) \<Rightarrow> (Inl (ServiceError NOT_FOUND (js ''Sorveteria not found'') 404), s1)
                  | (Some foto, s1) \<Rightarrow> (Inr foto, s1))))"

definition sorveteriaRemoveFoto :: "Date \<Rightarrow> int \<Rightarrow> SorveteriaStore \<Rightarrow> jsstring resultado" where
  "sorveteriaRemoveFoto agora params s =
     (case paramsSchema params of
        None \<Rightarrow> (Inl (ServiceError VALIDATION_ERROR (js ''Invalid ID'') 400), s)
      | Some i \<Rightarrow>
          (case removeFoto agora i s of
             (False, s1) \<Rightarrow> (Inl (ServiceError NOT_FOUND (js ''Photo not found'') 404), s1)
           | (True, s1) \<Rightarrow> (Inr (js ''Photo removed successfully''), s1)))"

definition sorveteriaAddDepoimento ::
  "Date \<Rightarrow> DepoimentoCreateInput \<Rightarrow> SorveteriaStore \<Rightarrow> Depoimento resultado" where
  "sorveteriaAddDepoimento agora body s =
     (if \<not> depoimentoCreateSchema body
      then (Inl (ServiceError VALIDATION_ERROR (js ''Validation failed'') 400), s)
      else
        (case addDepoimento agora body s of
           (None, s1) \<Rightarrow> (Inl (ServiceError NOT_FOUND (js ''Sorveteria not found'') 404), s1)
         | (Some depoimento, s1) \<Rightarrow> (Inr depoimento, s1)))"

definition sorveteriaUpdateDepoimentoStatus ::
  "int \<Rightarrow> jsstring \<Rightarrow> SorveteriaStore \<Rightarrow> Depoimento resultado" where
  "sorveteriaUpdateDepoimentoStatus params body s =
     (case paramsSchema params of
        None \<Rightarrow> (Inl (ServiceError VALIDATION_ERROR (js ''Invalid ID'') 400), s)
      | Some i \<Rightarrow>
          (case enumStatusModeracao body of
             None \<Rightarrow> (Inl (ServiceError VALIDATION_ERROR (js ''Invalid status'') 400), s)
           | Some status \<Rightarrow>
               (case updateDepoimentoStatus i status s of
                  (None, s1) \<Rightarrow> (Inl (ServiceError NOT_FOUND (js ''Testimonial not found'') 404), s1)
                | (Some depoimento, s1) \<Rightarrow> (Inr depoimento, s1))))"

definition sorveteriaAddPromocao ::
  "Date \<Rightarrow> PromocaoCreateInput \<Rightarrow> SorveteriaStore \<Rightarrow> Promocao resultado" where
  "sorveteriaAddPromocao agora body s =
     (case promocaoCreateSchema body of
        None \<Rightarrow> (Inl (ServiceError VALIDATION_ERROR (js ''Validation failed'') 400), s)
      | Some dados \<Rightarrow>
          (case store_get s of
             None \<Rightarrow> (Inl (ServiceError NOT_FOUND (js ''Sorveteria not found'') 404), s)
           | Some e \<Rightarrow>
               if length (promocoesAtivas e) \<ge> MAX_PROMOCOES
               then (Inl (ServiceError LIMIT_EXCEEDED
                           (js ''Maximum of '' @ jsString MAX_PROMOCOES @
                            js '' active promotions allowed'') 400), s)
               else if pd_prioridade dados = 1 \<and>
                       list_ex (\<lambda>p. promo_prioridade p = 1) (promocoesAtivas e)
               then (Inl (ServiceError PRIORITY_CONFLICT
                           (js ''Only one promotion can have priority 1'') 400), s)
               else
                 (case addPromocao agora dados s of
                    (None, s1) \<Rightarrow> (Inl (ServiceError NOT_FOUND (js ''Sorveteria not found'') 404), s1)
                  | (Some promocao, s1) \<Rightarrow> (Inr promocao, s1))))"

definition sorveteriaRemovePromocoesVencidas :: "Date \<Rightarrow> SorveteriaStore \<Rightarrow> nat resultado" where
  "sorveteriaRemovePromocoesVencidas agora s =
     (case removePromocoesVencidas agora s of (removed, s1) \<Rightarrow> (Inr removed, s1))"

text \<open>The status returned is a string: \<open>statusFuncionamento\<close>, or \<open>'unknown'\<close> without a record.\<close>

definition sorveteriaUpdateStatus ::
  "Date \<Rightarrow> SorveteriaStore \<Rightarrow> StatusFuncionamento option resultado" where
  "sorveteriaUpdateStatus agora s =
     (case updateStatusFuncionamento agora s of
        None \<Rightarrow> (Inl TypeError, s)
      | Some s1 \<Rightarrow> (Inr (map_option statusFuncionamento (store_get s1)), s1))"

section \<open>Reachable stores and example values\<close>

text \<open>
  The stores that the ten service operations can produce from the empty store, whatever
  the requests and the clock readings are. The environment is fixed for the process.
\<close>

inductive alcancavel :: "Ambiente \<Rightarrow> SorveteriaStore \<Rightarrow> bool" for amb :: Ambiente where
  inicial: "alcancavel amb store_inicial"
| get: "alcancavel amb s \<Longrightarrow> alcancavel amb (snd (sorveteriaGet agora s))"
| createOrUpdate:
    "alcancavel amb s \<Longrightarrow> alcancavel amb (snd (sorveteriaCreateOrUpdate amb agora c s))"
| update: "alcancavel amb s \<Longrightarrow> alcancavel amb (snd (sorveteriaUpdate amb agora u s))"
| addFoto: "alcancavel amb s \<Longrightarrow> alcancavel amb (snd (sorveteriaAddFoto amb agora f s))"
| removeFoto: "alcancavel amb s \<Longrightarrow> alcancavel amb (snd (sorveteriaRemoveFoto agora i s))"
| addDepoimento: "alcancavel amb s \<Longrightarrow> alcancavel amb (snd (sorveteriaAddDepoimento agora d s))"
| updateDepoimentoStatus:
    "alcancavel amb s \<Longrightarrow> alcancavel amb (snd (sorveteriaUpdateDepoimentoStatus i st s))"
| addPromocao: "alcancavel amb s \<Longrightarrow> alcancavel amb (snd (sorveteriaAddPromocao agora p s))"
| removePromocoesVencidas:
    "alcancavel amb s \<Longrightarrow> alcancavel amb (snd (sorveteriaRemovePromocoesVencidas agora s))"
| updateStatus: "alcancavel amb s \<Longrightarrow> alcancavel amb (snd (sorveteriaUpdateStatus agora s))"

text \<open>The bounds that every reachable record keeps.\<close>

definition dentro_dos_limites :: "SorveteriaEntity \<Rightarrow> bool" where
  "dentro_dos_limites e =
     (length (fotosAmbiente e) \<le> MAX_FOTOS_AMBIENTE \<and>
      length (promocoesAtivas e) \<le> MAX_PROMOCOES \<and>
      length (filter (\<lambda>p. promo_prioridade p = 1) (promocoesAtivas e)) \<le> 1 \<and>
      statusFuncionamento e \<noteq> Abrindo_em_breve)"

definition limites :: "SorveteriaStore \<Rightarrow> bool" where
  "limites s = (\<forall>e. sorveteria s = Some e \<longrightarrow> dentro_dos_limites e)"

text \<open>
  An environment, a clock reading (Wednesday 15 May 2024, 15:00 local time, 18:00 UTC), a
  valid creation request, and the store that the request creates from the empty store.
\<close>

definition amb_exemplo :: Ambiente where
  "amb_exemplo =
     \<lparr>isUrl = (\<lambda>u. take 8 u = js ''https://''),
      toLowerCase = map (\<lambda>c. if 65 \<le> c \<and> c \<le> 90 then c + 32 else c),
      anoAtual = 2026\<rparr>"

definition agora_exemplo :: Date where
  "agora_exemplo =
     \<lparr>toISOString = js ''2024-05-15T18:00:00.000Z'', getDay = 3, getHours = 15, getMinutes = 0\<rparr>"

definition dia_exemplo :: HorarioDia where
  "dia_exemplo = \<lparr>dia_abertura = js ''10:00'', dia_fechamento = js ''22:00'', dia_fechado = False\<rparr>"

definition semana_exemplo :: HorarioSemana where
  "semana_exemplo =
     \<lparr>segunda = dia_exemplo, terca = dia_exemplo, quarta = dia_exemplo, quinta = dia_exemplo,
      sexta = dia_exemplo, sabado = dia_exemplo, domingo = dia_exemplo\<rparr>"

definition body_exemplo :: CreateInput where
  "body_exemplo =
     \<lparr>c_nomeSorveteria = js ''Tommasi Sorvetes'',
      c_logotipo = js ''https://tommasi.example/logo.png'',
      c_slogan = None,
      c_historiaSorveteria =
        js ''Origem, tradi'' @ [231, 227] @ js ''o e qualidade'' @ replicate 200 46,
      c_anoFundacao = 1998,
      c_diferenciais =
        [js ''Qualidade artesanal'', js ''Tradi'' @ [231, 227] @ js ''o familiar'',
         js ''Atendimento atencioso''],
      c_fundadores = js ''Familia Tommasi'',
      c_horariosSemana = semana_exemplo,
      c_horariosEspeciais = None,
      c_missao = None,
      c_visao = None,
      c_valores = None\<rparr>"

definition entidade_exemplo :: SorveteriaEntity where
  "entidade_exemplo =
     \<lparr>ent_id = 1,
      nomeSorveteria = js ''Tommasi Sorvetes'',
      logotipo = js ''https://tommasi.example/logo.png'',
      slogan = None,
      historiaSorveteria =
        js ''Origem, tradi'' @ [231, 227] @ js ''o e qualidade'' @ replicate 200 46,
      anoFundacao = 1998,
      diferenciais =
        [js ''Qualidade artesanal'', js ''Tradi'' @ [231, 227] @ js ''o familiar'',
         js ''Atendimento atencioso''],
      fundadores = js ''Familia Tommasi'',
      horariosSemana = semana_exemplo,
      horariosEspeciais = [],
      statusFuncionamento = Aberto,
      fotosAmbiente = [],
      depoimentos = [],
      avaliacaoMedia = None,
      totalAvaliacoes = 0,
      promocoesAtivas = [],
      missao = None,
      visao = None,
      valores = [],
      dateCreated = js ''2024-05-15T18:00:00.000Z'',
      dateModified = js ''2024-05-15T18:00:00.000Z''\<rparr>"

definition store_exemplo :: SorveteriaStore where
  "store_exemplo =
     \<lparr>sorveteria = Some entidade_exemplo, fotosCounter = 0, depoimentosCounter = 0,
      promocoesCounter = 0\<rparr>"

text \<open>
  Special hours for the day of \<open>agora_exemplo\<close>, without and with times, a week that is
  closed every day, and a record that holds the second entry over the closed week.
\<close>

definition especial_sem_horas :: HorarioEspecial where
  "especial_sem_horas =
     \<lparr>esp_data = js ''2024-05-15'', esp_descricao = js ''Feriado'', esp_abertura = None,
      esp_fechamento = None, esp_fechado = False\<rparr>"

definition especial_tarde :: HorarioEspecial where
  "especial_tarde =
     \<lparr>esp_data = js ''2024-05-15'', esp_descricao = js ''Feriado'',
      esp_abertura = Some (js ''14:00''), esp_fechamento = Some (js ''16:00''),
      esp_fechado = False\<rparr>"

definition dia_fechado_exemplo :: HorarioDia where
  "dia_fechado_exemplo =
     \<lparr>dia_abertura = js ''10:00'', dia_fechamento = js ''22:00'', dia_fechado = True\<rparr>"

definition semana_fechada :: HorarioSemana where
  "semana_fechada =
     \<lparr>segunda = dia_fechado_exemplo, terca = dia_fechado_exemplo, quarta = dia_fechado_exemplo,
      quinta = dia_fechado_exemplo, sexta = dia_fechado_exemplo, sabado = dia_fechado_exemplo,
      domingo = dia_fechado_exemplo\<rparr>"

definition entidade_especial :: SorveteriaEntity where
  "entidade_especial =
     entidade_exemplo\<lparr>horariosSemana := semana_fechada, horariosEspeciais := [especial_tarde],
       statusFuncionamento := Fechado\<rparr>"

definition store_especial :: SorveteriaStore where
  "store_especial = store_exemplo\<lparr>sorveteria := Some entidade_especial\<rparr>"

text \<open>
  A week that opens at \<open>9:00\<close>, written without the leading zero, and a clock reading of
  10:00 local time on the same Wednesday.
\<close>

definition dia_9h :: HorarioDia where
  "dia_9h = \<lparr>dia_abertura = js ''9:00'', dia_fechamento = js ''18:00'', dia_fechado = False\<rparr>"

definition semana_9h :: HorarioSemana where
  "semana_9h =
     \<lparr>segunda = dia_9h, terca = dia_9h, quarta = dia_9h, quinta = dia_9h, sexta = dia_9h,
      sabado = dia_9h, domingo = dia_9h\<rparr>"

definition agora_10h :: Date where
  "agora_10h =
     \<lparr>toISOString = js ''2024-05-15T13:00:00.000Z'', getDay = 3, getHours = 10, getMinutes = 0\<rparr>"

text \<open>Two promotions, one that expires on the day of \<open>agora_exemplo\<close> and one the day before.\<close>

definition promo_hoje :: Promocao where
  "promo_hoje =
     \<lparr>promo_id = 1, promo_titulo = js ''Casquinha em dobro'', promo_descricao = js ''Leve duas'',
      promo_dataValidade = js ''2024-05-15'', promo_prioridade = 1, promo_tipo = COMBO,
      promo_ativa = True\<rparr>"

definition promo_ontem :: Promocao where
  "promo_ontem =
     \<lparr>promo_id = 2, promo_titulo = js ''Sundae'', promo_descricao = js ''Metade do valor'',
      promo_dataValidade = js ''2024-05-14'', promo_prioridade = 2, promo_tipo = DESCONTO,
      promo_ativa = True\<rparr>"

definition store_promocoes :: SorveteriaStore where
  "store_promocoes =
     store_exemplo\<lparr>sorveteria := Some (entidade_exemplo\<lparr>promocoesAtivas := [promo_hoje, promo_ontem]\<rparr>),
       promocoesCounter := 2\<rparr>"

text \<open>A photo request, the store after it, the photo list of a store, and the first photo.\<close>

definition foto_body_exemplo :: FotoCreateInput where
  "foto_body_exemplo =
     \<lparr>f_url = js ''https://tommasi.example/balcao.jpg'', f_descricao = None,
      f_categoria = js ''balcao''\<rparr>"

definition adicionar_foto_exemplo :: "SorveteriaStore \<Rightarrow> SorveteriaStore" where
  "adicionar_foto_exemplo s = snd (sorveteriaAddFoto amb_exemplo agora_exemplo foto_body_exemplo s)"

definition fotos_de :: "SorveteriaStore \<Rightarrow> FotoAmbiente list" where
  "fotos_de s = (case sorveteria s of None \<Rightarrow> [] | Some e \<Rightarrow> fotosAmbiente e)"

definition foto_exemplo :: FotoAmbiente where
  "foto_exemplo =
     \<lparr>foto_id = 1, foto_url = js ''https://tommasi.example/balcao.jpg'', foto_descricao = None,
      foto_categoria = BALCAO, foto_ordem = 1\<rparr>"

text \<open>
  A later clock reading (23:00 local time on the same Wednesday, Thursday 02:00 UTC) and a
  testimonial request.
\<close>

definition agora_noite :: Date where
  "agora_noite =
     \<lparr>toISOString = js ''2024-05-16T02:00:00.000Z'', getDay = 3, getHours = 23, getMinutes = 0\<rparr>"

definition depoimento_body_exemplo :: DepoimentoCreateInput where
  "depoimento_body_exemplo =
     \<lparr>dc_nomeCliente = js ''Ana'', dc_texto = js ''Muito bom'', dc_avaliacao = 5\<rparr>"

text \<open>
  The store that holds the photos 1 to \<open>n\<close> of the example request, in order; a
  promotion request with a given priority, the store after it, a store after three such
  requests, and the promotion list of a store.
\<close>

definition store_com_fotos :: "nat \<Rightarrow> SorveteriaStore" where
  "store_com_fotos n =
     store_exemplo\<lparr>sorveteria :=
         Some (entidade_exemplo\<lparr>fotosAmbiente :=
                 map (\<lambda>k. foto_exemplo\<lparr>foto_id := k, foto_ordem := k\<rparr>) [1..<Suc n]\<rparr>),
       fotosCounter := n\<rparr>"

definition promocao_body :: "int \<Rightarrow> PromocaoCreateInput" where
  "promocao_body prioridade =
     \<lparr>pc_titulo = js ''Casquinha em dobro'', pc_descricao = js ''Leve duas'',
      pc_dataValidade = js ''2024-06-30'', pc_prioridade = prioridade, pc_tipo = js ''combo''\<rparr>"

definition adicionar_promocao_exemplo :: "int \<Rightarrow> SorveteriaStore \<Rightarrow> SorveteriaStore" where
  "adicionar_promocao_exemplo prioridade s =
     snd (sorveteriaAddPromocao agora_exemplo (promocao_body prioridade) s)"

definition store_3_promocoes :: SorveteriaStore where
  "store_3_promocoes =
     adicionar_promocao_exemplo 3 (adicionar_promocao_exemplo 2
       (adicionar_promocao_exemplo 1 store_exemplo))"

definition promocoes_de :: "SorveteriaStore \<Rightarrow> Promocao list" where
  "promocoes_de s = (case sorveteria s of None \<Rightarrow> [] | Some e \<Rightarrow> promocoesAtivas e)"

text \<open>
  Two creation requests that break a content rule: a history without the words for origin
  and quality, and differentiators of which none mentions service.
\<close>

definition body_sem_origem :: CreateInput where
  "body_sem_origem =
     body_exemplo\<lparr>c_historiaSorveteria :=
       js ''Uma casa de tradi'' @ [231, 227] @ js ''o'' @ replicate 200 46\<rparr>"

definition body_sem_atendimento :: CreateInput where
  "body_sem_atendimento =
     body_exemplo\<lparr>c_diferenciais :=
       [js ''Qualidade artesanal'', js ''Tradi'' @ [231, 227] @ js ''o familiar'',
        js ''Sabores da esta'' @ [231, 227] @ js ''o'']\<rparr>"

text \<open>
  The quantities of the claim on the average rating, in its words: the approved
  testimonials of a record, and the sum of their ratings divided by their number, rounded
  to one decimal by the code's \<open>toFixed(1)\<close> (nothing when none is approved).
\<close>

definition aprovados :: "SorveteriaEntity \<Rightarrow> Depoimento list" where
  "aprovados e = filter (\<lambda>d. dep_statusModeracao d = APROVADO) (depoimentos e)"

definition media_aprovados :: "SorveteriaEntity \<Rightarrow> rat option" where
  "media_aprovados e =
     (if aprovados e = [] then None
      else Some (parseFloat_toFixed_1
                   (of_int (sum_list (map dep_avaliacao (aprovados e))) /
                    of_nat (length (aprovados e)))))"









text \<open>
  A date YYYY-MM-DD read as numbers: the value of a run of decimal digits, the year, month
  and day of a date string, and the calendar order of two dates.
\<close>

definition numero :: "jsstring \<Rightarrow> nat" where
  "numero ds = foldl (\<lambda>n c. 10 * n + (c - 48)) 0 ds"

definition data_ymd :: "jsstring \<Rightarrow> nat \<times> nat \<times> nat" where
  "data_ymd s = (numero (take 4 s), numero (take 2 (drop 5 s)), numero (take 2 (drop 8 s)))"

fun nao_posterior :: "nat \<times> nat \<times> nat \<Rightarrow> nat \<times> nat \<times> nat \<Rightarrow> bool" where
  "nao_posterior (y, m, d) (y', m', d') = (y < y' \<or> (y = y' \<and> (m < m' \<or> (m = m' \<and> d \<le> d'))))"

section \<open>Facts shared by the claims\<close>

lemma criar_exemplo:
  "sorveteriaCreateOrUpdate amb_exemplo agora_exemplo body_exemplo store_inicial =
     (Inr entidade_exemplo, store_exemplo)"
  by code_simp

lemma store_exemplo_alcancavel: "alcancavel amb_exemplo store_exemplo"
  using alcancavel.createOrUpdate[OF alcancavel.inicial, of amb_exemplo agora_exemplo body_exemplo]
  by (simp add: criar_exemplo)

lemma novoStatus_valores: "novoStatus agora e = Some st \<Longrightarrow> st = Aberto \<or> st = Fechado"
  by (auto simp: novoStatus_def horarioRegular_def Let_def split: option.splits if_splits)

lemma horarioRegular_Some: "getDay agora < 7 \<Longrightarrow> \<exists>st. horarioRegular agora e = Some st"
  by (auto simp: horarioRegular_def diaSemana_def Let_def)

lemma novoStatus_Some: "getDay agora < 7 \<Longrightarrow> \<exists>st. novoStatus agora e = Some st"
  using horarioRegular_Some[of agora e]
  by (auto simp: novoStatus_def split: option.splits)

lemma updateStatus_Some:
  "updateStatusFuncionamento agora s = Some s' \<Longrightarrow> sorveteria s = Some e \<Longrightarrow>
   \<exists>st. novoStatus agora e = Some st \<and> s' = s\<lparr>sorveteria := Some (e\<lparr>statusFuncionamento := st\<rparr>)\<rparr>"
  by (auto simp: updateStatusFuncionamento_def split: option.splits)

lemma updateStatus_vazio:
  "updateStatusFuncionamento agora s = Some s' \<Longrightarrow> sorveteria s = None \<Longrightarrow> s' = s"
  by (simp add: updateStatusFuncionamento_def)

subsection \<open>The bounds hold in every reachable store\<close>

lemma limites_updateStatus:
  assumes u: "updateStatusFuncionamento agora s = Some s'"
    and l: "\<forall>e. sorveteria s = Some e \<longrightarrow> dentro_dos_limites (e\<lparr>statusFuncionamento := Fechado\<rparr>)"
  shows "limites s'"
proof (cases "sorveteria s")
  case None
  with updateStatus_vazio[OF u] show ?thesis by (simp add: limites_def)
next
  case (Some e)
  from updateStatus_Some[OF u Some] obtain st where
    st: "novoStatus agora e = Some st" "s' = s\<lparr>sorveteria := Some (e\<lparr>statusFuncionamento := st\<rparr>)\<rparr>"
    by blast
  from l Some have "dentro_dos_limites (e\<lparr>statusFuncionamento := Fechado\<rparr>)" by simp
  with novoStatus_valores[OF st(1)] st(2) show ?thesis
    by (auto simp: limites_def dentro_dos_limites_def)
qed

lemma limites_Fechado:
  "limites s \<Longrightarrow> sorveteria s = Some e \<Longrightarrow> dentro_dos_limites (e\<lparr>statusFuncionamento := Fechado\<rparr>)"
  by (simp add: limites_def dentro_dos_limites_def)

lemma limites_get: "limites s \<Longrightarrow> limites (snd (sorveteriaGet agora s))"
  by (auto simp: sorveteriaGet_def store_get_def limites_Fechado split: option.splits
      intro!: limites_updateStatus[where s = s and agora = agora])

lemma limites_updateStatusS: "limites s \<Longrightarrow> limites (snd (sorveteriaUpdateStatus agora s))"
  by (auto simp: sorveteriaUpdateStatus_def limites_Fechado split: option.splits
      intro!: limites_updateStatus[where s = s and agora = agora])

lemma store_set_sorveteria:
  "store_set agora d s = (e, s1) \<Longrightarrow>
   sorveteria s1 = Some e \<and> fotosAmbiente e = d_fotosAmbiente d \<and>
   promocoesAtivas e = d_promocoesAtivas d \<and> statusFuncionamento e = d_statusFuncionamento d"
  by (auto simp: store_set_def Let_def entidade_def split: option.splits)

lemma limites_createOrUpdate:
  assumes "limites s"
  shows "limites (snd (sorveteriaCreateOrUpdate amb agora c s))"
proof -
  have *: "limites s1" if "store_set agora d s = (e, s1)" "d_fotosAmbiente d = []"
      "d_promocoesAtivas d = []" "d_statusFuncionamento d = Fechado" for d e s1
    using store_set_sorveteria[OF that(1)] that(2-4)
    by (simp add: limites_def dentro_dos_limites_def)
  have **: "limites s2" if "store_set agora d s = (e, s1)" "d_fotosAmbiente d = []"
      "d_promocoesAtivas d = []" "d_statusFuncionamento d = Fechado"
      "updateStatusFuncionamento agora s1 = Some s2" for d e s1 s2
    using store_set_sorveteria[OF that(1)] that(2-4)
    by (intro limites_updateStatus[OF that(5)]) (simp add: dentro_dos_limites_def)
  show ?thesis
    using assms
    by (auto simp: sorveteriaCreateOrUpdate_def Let_def split: option.splits prod.splits
        intro: * **)
qed

lemma limites_update:
  assumes "limites s"
  shows "limites (snd (sorveteriaUpdate amb agora u s))"
proof -
  have *: "limites s2" if "sorveteria s = Some e" "updateStatusFuncionamento agora
      (s\<lparr>sorveteria := Some ((mesclar u e)\<lparr>dateModified := toISOString agora\<rparr>)\<rparr>) = Some s2" for e s2
    using limites_Fechado[OF assms that(1)]
    by (intro limites_updateStatus[OF that(2)]) (simp add: dentro_dos_limites_def mesclar_def)
  have **: "limites (s\<lparr>sorveteria := Some ((mesclar u e)\<lparr>dateModified := toISOString agora\<rparr>)\<rparr>)"
    if "sorveteria s = Some e" for e
    using assms that by (simp add: limites_def dentro_dos_limites_def mesclar_def)
  show ?thesis
    using assms
    by (auto simp: sorveteriaUpdate_def store_update_def store_get_def Let_def
        split: option.splits prod.splits intro: * **)
qed

lemma limites_addFoto:
  assumes "limites s"
  shows "limites (snd (sorveteriaAddFoto amb agora f s))"
  using assms
  by (auto simp: sorveteriaAddFoto_def addFoto_def store_get_def Let_def limites_def
      dentro_dos_limites_def split: option.splits prod.splits)

lemma length_splice1: "length (splice1 i xs) \<le> length xs"
  by (simp add: splice1_def)

lemma limites_removeFoto:
  assumes "limites s"
  shows "limites (snd (sorveteriaRemoveFoto agora i s))"
  using assms le_trans[OF length_splice1]
  by (auto simp: sorveteriaRemoveFoto_def removeFoto_def Let_def limites_def
      dentro_dos_limites_def split: option.splits prod.splits bool.splits)

lemma recalcular_campos:
  "sorveteria s = Some e \<Longrightarrow>
   \<exists>m t. recalcularAvaliacaoMedia s = s\<lparr>sorveteria := Some (e\<lparr>avaliacaoMedia := m, totalAvaliacoes := t\<rparr>)\<rparr>"
  by (auto simp: recalcularAvaliacaoMedia_def Let_def)

lemma limites_recalcular: "limites s \<Longrightarrow> limites (recalcularAvaliacaoMedia s)"
proof (cases "sorveteria s")
  case None
  then show "limites s \<Longrightarrow> limites (recalcularAvaliacaoMedia s)"
    by (simp add: recalcularAvaliacaoMedia_def)
next
  case (Some e)
  from recalcular_campos[OF Some] obtain m t where
    "recalcularAvaliacaoMedia s = s\<lparr>sorveteria := Some (e\<lparr>avaliacaoMedia := m, totalAvaliacoes := t\<rparr>)\<rparr>"
    by blast
  then show "limites s \<Longrightarrow> limites (recalcularAvaliacaoMedia s)"
    using Some by (simp add: limites_def dentro_dos_limites_def)
qed

lemma limites_addDepoimento:
  assumes "limites s"
  shows "limites (snd (sorveteriaAddDepoimento agora d s))"
proof -
  have "limites (s\<lparr>sorveteria := Some (e\<lparr>depoimentos := ds\<rparr>), depoimentosCounter := c\<rparr>)"
    if "sorveteria s = Some e" for e ds c
    using assms that by (simp add: limites_def dentro_dos_limites_def)
  then show ?thesis
    using assms
    by (auto simp: sorveteriaAddDepoimento_def addDepoimento_def Let_def
        split: option.splits prod.splits intro!: limites_recalcular)
qed

lemma limites_updateDepoimentoStatus:
  assumes "limites s"
  shows "limites (snd (sorveteriaUpdateDepoimentoStatus i st s))"
proof -
  have "limites (s\<lparr>sorveteria := Some (e\<lparr>depoimentos := ds\<rparr>)\<rparr>)"
    if "sorveteria s = Some e" for e ds
    using assms that by (simp add: limites_def dentro_dos_limites_def)
  then show ?thesis
    using assms
    by (auto simp: sorveteriaUpdateDepoimentoStatus_def updateDepoimentoStatus_def Let_def
        split: option.splits prod.splits intro!: limites_recalcular)
qed

lemma limites_addPromocao:
  assumes "limites s"
  shows "limites (snd (sorveteriaAddPromocao agora p s))"
  using assms
  by (auto simp: sorveteriaAddPromocao_def addPromocao_def store_get_def Let_def limites_def
      dentro_dos_limites_def list_ex_iff filter_empty_conv split: option.splits prod.splits)

lemma length_filter_filter:
  "length (filter P (filter Q xs)) \<le> length (filter P xs)"
  by (induction xs) auto

lemma limites_removePromocoesVencidas:
  assumes "limites s"
  shows "limites (snd (sorveteriaRemovePromocoesVencidas agora s))"
  using assms le_trans[OF length_filter_filter] le_trans[OF length_filter_le]
  by (auto simp: sorveteriaRemovePromocoesVencidas_def removePromocoesVencidas_def Let_def
      limites_def dentro_dos_limites_def split: option.splits prod.splits)

lemma alcancavel_limites: "alcancavel amb s \<Longrightarrow> limites s"
proof (induction rule: alcancavel.induct)
  case inicial
  show ?case by (simp add: limites_def store_inicial_def)
qed (simp_all add: limites_get limites_createOrUpdate limites_update limites_addFoto
    limites_removeFoto limites_addDepoimento limites_updateDepoimentoStatus limites_addPromocao
    limites_removePromocoesVencidas limites_updateStatusS)

section \<open>C1: special hours in the status recompute\<close>

text \<open>
  C1, as stated, fails. The record holds one special-hours entry for today that is not
  closed and has no times; the week is open from 10:00 to 22:00 every day and it is 15:00.
  The claim gives the status closed; the recompute falls through to the regular hours and
  sets the status to open.
\<close>

theorem C1_counterexample:
  "horariosEspeciais (entidade_exemplo\<lparr>horariosEspeciais := [especial_sem_horas]\<rparr>) =
     [especial_sem_horas] \<and>
   esp_data especial_sem_horas = dataAtual agora_exemplo \<and>
   horarioEspecialSchema especial_sem_horas \<and>
   \<not> esp_fechado especial_sem_horas \<and>
   esp_abertura especial_sem_horas = None \<and>
   updateStatusFuncionamento agora_exemplo
     (store_exemplo\<lparr>sorveteria := Some (entidade_exemplo\<lparr>horariosEspeciais := [especial_sem_horas],
        statusFuncionamento := Fechado\<rparr>)\<rparr>) =
   Some (store_exemplo\<lparr>sorveteria := Some (entidade_exemplo\<lparr>horariosEspeciais := [especial_sem_horas],
        statusFuncionamento := Aberto\<rparr>)\<rparr>)"
  by code_simp

text \<open>
  C1, amended. Let \<open>h\<close> be the first special-hours entry whose date is today. If \<open>h\<close> is
  closed, the status becomes closed. Otherwise, if \<open>h\<close> has an opening and a closing time
  (neither null nor empty), the status becomes open exactly when opening \<open>\<le>\<close> current time
  \<open><\<close> closing in the lexicographic order of strings, and closed if not. In these two cases
  the status does not depend on the weekly table or on the weekday. Otherwise (a time is
  missing) the status is the one the regular hours of today's weekday give.
\<close>

theorem C1_special_hours:
  assumes "sorveteria s = Some e"
    and "find (\<lambda>h. esp_data h = dataAtual agora) (horariosEspeciais e) = Some h"
  shows "updateStatusFuncionamento agora s =
           (if esp_fechado h
            then Some (s\<lparr>sorveteria := Some (e\<lparr>statusFuncionamento := Fechado\<rparr>)\<rparr>)
            else if truthy (esp_abertura h) \<and> truthy (esp_fechamento h)
            then Some (s\<lparr>sorveteria := Some (e\<lparr>statusFuncionamento :=
                   (if the (esp_abertura h) \<le> horaAtual agora \<and>
                       horaAtual agora < the (esp_fechamento h)
                    then Aberto else Fechado)\<rparr>)\<rparr>)
            else (case horarioRegular agora e of
                    None \<Rightarrow> None
                  | Some st \<Rightarrow> Some (s\<lparr>sorveteria := Some (e\<lparr>statusFuncionamento := st\<rparr>)\<rparr>))) \<and>
         (esp_fechado h \<or> truthy (esp_abertura h) \<and> truthy (esp_fechamento h) \<longrightarrow>
            (\<forall>w d. novoStatus (agora\<lparr>getDay := d\<rparr>) (e\<lparr>horariosSemana := w\<rparr>) = novoStatus agora e))"
  using assms
  by (auto simp: updateStatusFuncionamento_def novoStatus_def horaAtual_def dataAtual_def
      split: option.splits)

theorem C1_special_hours_witness:
  "sorveteria store_especial = Some entidade_especial \<and>
   find (\<lambda>h. esp_data h = dataAtual agora_exemplo) (horariosEspeciais entidade_especial) =
     Some especial_tarde \<and>
   dia_fechado (quarta (horariosSemana entidade_especial)) \<and>
   updateStatusFuncionamento agora_exemplo store_especial =
     Some (store_especial\<lparr>sorveteria := Some (entidade_especial\<lparr>statusFuncionamento := Aberto\<rparr>)\<rparr>) \<and>
   novoStatus (agora_exemplo\<lparr>getDay := 9\<rparr>) (entidade_especial\<lparr>horariosSemana := semana_exemplo\<rparr>) =
     novoStatus agora_exemplo entidade_especial"
proof -
  have h1: "sorveteria store_especial = Some entidade_especial"
    by (simp add: store_especial_def)
  have h2: "find (\<lambda>h. esp_data h = dataAtual agora_exemplo) (horariosEspeciais entidade_especial) =
      Some especial_tarde"
    by code_simp
  have h3: "\<not> esp_fechado especial_tarde" "truthy (esp_abertura especial_tarde)"
    "truthy (esp_fechamento especial_tarde)"
    "the (esp_abertura especial_tarde) \<le> horaAtual agora_exemplo"
    "horaAtual agora_exemplo < the (esp_fechamento especial_tarde)"
    by code_simp+
  have h4: "dia_fechado (quarta (horariosSemana entidade_especial))"
    by code_simp
  from C1_special_hours[OF h1 h2] h3 h4 h1 h2 show ?thesis
    by simp
qed

section \<open>C8: the status recompute never assigns opening-soon\<close>

text \<open>
  C8. For a store that holds a record, and a clock reading whose weekday is one of the
  seven that \<open>getDay\<close> returns, the recompute returns, and it changes the record's status
  only, to open or to closed; whenever it returns, that is what it did. No record that the
  service operations can reach has the status opening-soon: the value is never assigned.
\<close>

theorem C8_recompute_open_or_closed:
  "(sorveteria s = Some e \<and> getDay agora < 7 \<longrightarrow>
      (\<exists>st. (st = Aberto \<or> st = Fechado) \<and>
         updateStatusFuncionamento agora s =
           Some (s\<lparr>sorveteria := Some (e\<lparr>statusFuncionamento := st\<rparr>)\<rparr>))) \<and>
   (sorveteria s = Some e \<and> updateStatusFuncionamento agora s = Some s' \<longrightarrow>
      (\<exists>st. (st = Aberto \<or> st = Fechado) \<and>
         s' = s\<lparr>sorveteria := Some (e\<lparr>statusFuncionamento := st\<rparr>)\<rparr>)) \<and>
   (alcancavel amb s \<and> sorveteria s = Some e \<longrightarrow> statusFuncionamento e \<noteq> Abrindo_em_breve)"
proof (intro conjI impI)
  assume a: "sorveteria s = Some e \<and> getDay agora < 7"
  then obtain st where st: "novoStatus agora e = Some st"
    using novoStatus_Some by blast
  with a novoStatus_valores[OF st]
  show "\<exists>st. (st = Aberto \<or> st = Fechado) \<and>
         updateStatusFuncionamento agora s =
           Some (s\<lparr>sorveteria := Some (e\<lparr>statusFuncionamento := st\<rparr>)\<rparr>)"
    by (auto simp: updateStatusFuncionamento_def)
next
  assume a: "sorveteria s = Some e \<and> updateStatusFuncionamento agora s = Some s'"
  with updateStatus_Some[of agora s s' e] novoStatus_valores[of agora e]
  show "\<exists>st. (st = Aberto \<or> st = Fechado) \<and>
         s' = s\<lparr>sorveteria := Some (e\<lparr>statusFuncionamento := st\<rparr>)\<rparr>"
    by blast
next
  assume "alcancavel amb s \<and> sorveteria s = Some e"
  with alcancavel_limites[of amb s] show "statusFuncionamento e \<noteq> Abrindo_em_breve"
    by (simp add: limites_def dentro_dos_limites_def)
qed

theorem C8_recompute_open_or_closed_witness:
  "sorveteria (store_exemplo\<lparr>sorveteria := Some (entidade_exemplo\<lparr>statusFuncionamento := Abrindo_em_breve\<rparr>)\<rparr>) =
     Some (entidade_exemplo\<lparr>statusFuncionamento := Abrindo_em_breve\<rparr>) \<and>
   getDay agora_exemplo < 7 \<and>
   updateStatusFuncionamento agora_exemplo
     (store_exemplo\<lparr>sorveteria := Some (entidade_exemplo\<lparr>statusFuncionamento := Abrindo_em_breve\<rparr>)\<rparr>) =
     Some store_exemplo \<and>
   alcancavel amb_exemplo store_exemplo \<and> sorveteria store_exemplo = Some entidade_exemplo \<and>
   statusFuncionamento entidade_exemplo \<noteq> Abrindo_em_breve"
proof -
  let ?e = "entidade_exemplo\<lparr>statusFuncionamento := Abrindo_em_breve\<rparr>"
  let ?s = "store_exemplo\<lparr>sorveteria := Some ?e\<rparr>"
  have h1: "sorveteria ?s = Some ?e" by simp
  have h2: "getDay agora_exemplo < 7" by code_simp
  have h3: "updateStatusFuncionamento agora_exemplo ?s = Some store_exemplo" by code_simp
  have h4: "sorveteria store_exemplo = Some entidade_exemplo" by (simp add: store_exemplo_def)
  from C8_recompute_open_or_closed[of ?s ?e agora_exemplo store_exemplo amb_exemplo] h1 h2 h3
  have h5: "\<exists>st. (st = Aberto \<or> st = Fechado) \<and>
      store_exemplo = ?s\<lparr>sorveteria := Some (?e\<lparr>statusFuncionamento := st\<rparr>)\<rparr>"
    by blast
  from C8_recompute_open_or_closed[of store_exemplo entidade_exemplo agora_exemplo store_exemplo
      amb_exemplo] store_exemplo_alcancavel h4
  have "statusFuncionamento entidade_exemplo \<noteq> Abrindo_em_breve" by blast
  with h1 h2 h3 h4 h5 store_exemplo_alcancavel show ?thesis by blast
qed

section \<open>C2: the times that the weekly-hours schema accepts\<close>

text \<open>
  C2 does not hold of the code: the pattern of \<open>horarioDiaSchema\<close> makes the first hour
  digit optional, so \<open>9:00\<close> is accepted. A record created with a week that opens at
  \<open>9:00\<close> and closes at \<open>18:00\<close> is given the status closed at 10:00, because
  \<open>10:00\<close> is below \<open>9:00\<close> in the order of strings.
\<close>

theorem C2_unpadded_hour_accepted:
  "horarioDiaSchema dia_9h \<and>
   createSchema amb_exemplo (body_exemplo\<lparr>c_horariosSemana := semana_9h\<rparr>) \<and>
   horaAtual agora_10h = js ''10:00'' \<and>
   horaAtual agora_10h < dia_abertura dia_9h \<and>
   fst (sorveteriaCreateOrUpdate amb_exemplo agora_10h
          (body_exemplo\<lparr>c_horariosSemana := semana_9h\<rparr>) store_inicial) =
     Inr (entidade_exemplo\<lparr>horariosSemana := semana_9h, statusFuncionamento := Fechado,
            dateCreated := js ''2024-05-15T13:00:00.000Z'',
            dateModified := js ''2024-05-15T13:00:00.000Z''\<rparr>)"
  by code_simp

section \<open>C4: the sweep of expired promotions\<close>

lemma length_filter_compl: "length xs - length (filter P xs) = length (filter (\<lambda>x. \<not> P x) xs)"
  using sum_length_filter_compl[of P xs] by simp

lemma numero_snoc: "numero (ds @ [c]) = 10 * numero ds + (c - 48)"
  by (simp add: numero_def)

lemma lex_append_igual:
  "length xs = length ys \<Longrightarrow>
   (xs @ us < ys @ vs) = (xs < ys \<or> (xs = ys \<and> us < vs))"
  by (induction xs ys rule: list_induct2) auto

lemma lex_snoc:
  "length xs = length ys \<Longrightarrow> (xs @ [c] < ys @ [d]) = (xs < ys \<or> (xs = ys \<and> c < d))"
  by (simp add: lex_append_igual)

lemma numero_lex:
  "length xs = length ys \<Longrightarrow> list_all digito xs \<Longrightarrow> list_all digito ys \<Longrightarrow>
   (xs < ys) = (numero xs < numero ys) \<and> (xs = ys) = (numero xs = numero ys)"
proof (induction xs arbitrary: ys rule: rev_induct)
  case Nil
  then show ?case by (simp add: numero_def)
next
  case (snoc c xs)
  then obtain d ys' where ys: "ys = ys' @ [d]"
    by (cases ys rule: rev_cases) auto
  with snoc.prems have l: "length xs = length ys'" and dx: "list_all digito xs"
    and dy: "list_all digito ys'" and dc: "digito c" "digito d"
    by simp_all
  from dc have c: "48 \<le> c" "c \<le> 57" and d: "48 \<le> d" "d \<le> 57"
    by (simp_all add: digito_def entre_def)
  from snoc.IH[OF l dx dy] have ih: "(xs < ys') = (numero xs < numero ys')"
    "(xs = ys') = (numero xs = numero ys')" by simp_all
  have "(xs @ [c] < ys' @ [d]) = (numero (xs @ [c]) < numero (ys' @ [d]))"
    unfolding lex_snoc[OF l] numero_snoc ih using c d by auto
  moreover have "(xs @ [c] = ys' @ [d]) = (numero (xs @ [c]) = numero (ys' @ [d]))"
    unfolding numero_snoc using ih(2) c d by auto
  ultimately show ?case using ys by simp
qed

lemma dataRegex_partes:
  assumes "dataRegex a"
  obtains y m d where "a = y @ 45 # m @ 45 # d" "length y = 4" "length m = 2" "length d = 2"
    "list_all digito y" "list_all digito m" "list_all digito d"
proof -
  from assms obtain a0 a1 a2 a3 a4 a5 a6 a7 a8 a9 where a: "a = [a0, a1, a2, a3, a4, a5, a6, a7, a8, a9]"
    by (cases a rule: dataRegex.cases) simp_all
  with assms have "a = [a0, a1, a2, a3] @ 45 # [a5, a6] @ 45 # [a8, a9]"
    "list_all digito [a0, a1, a2, a3]" "list_all digito [a5, a6]" "list_all digito [a8, a9]"
    by simp_all
  then show ?thesis
    by (intro that[of "[a0, a1, a2, a3]" "[a5, a6]" "[a8, a9]"]) simp_all
qed

lemma data_ymd_partes:
  "length y = 4 \<Longrightarrow> length m = 2 \<Longrightarrow> length d = 2 \<Longrightarrow>
   data_ymd (y @ 45 # m @ 45 # d) = (numero y, numero m, numero d)"
  by (simp add: data_ymd_def)

lemma data_ordem:
  assumes "dataRegex a" "dataRegex b"
  shows "(a \<le> b) = nao_posterior (data_ymd a) (data_ymd b)"
proof -
  from assms(1) obtain y m d where a: "a = y @ 45 # m @ 45 # d"
    and la: "length y = 4" "length m = 2" "length d = 2"
    and da: "list_all digito y" "list_all digito m" "list_all digito d"
    by (rule dataRegex_partes)
  from assms(2) obtain y' m' d' where b: "b = y' @ 45 # m' @ 45 # d'"
    and lb: "length y' = 4" "length m' = 2" "length d' = 2"
    and db: "list_all digito y'" "list_all digito m'" "list_all digito d'"
    by (rule dataRegex_partes)
  from la lb have l: "length y = length y'" "length m = length m'" "length d = length d'"
    by simp_all
  note ny = numero_lex[OF l(1) da(1) db(1)] and nm = numero_lex[OF l(2) da(2) db(2)]
    and nd = numero_lex[OF l(3) da(3) db(3)]
  have lt: "(a < b) = (y < y' \<or> (y = y' \<and> (m < m' \<or> (m = m' \<and> d < d'))))"
    unfolding a b by (simp add: lex_append_igual[OF l(1)] lex_append_igual[OF l(2)])
  have eq: "(a = b) = (y = y' \<and> m = m' \<and> d = d')"
    unfolding a b using l by simp
  have "(a \<le> b) = (a < b \<or> a = b)" by (rule le_less)
  also have "\<dots> = (numero y < numero y' \<or> (numero y = numero y' \<and>
      (numero m < numero m' \<or> (numero m = numero m' \<and> numero d \<le> numero d'))))"
    unfolding lt eq using ny nm nd by (simp add: le_less) blast
  also have "\<dots> = nao_posterior (data_ymd a) (data_ymd b)"
    unfolding a b data_ymd_partes[OF la] data_ymd_partes[OF lb] by simp
  finally show ?thesis .
qed

text \<open>
  C4. Without a record the sweep returns 0 and leaves the store as it is. With a record it
  keeps exactly the promotions whose expiry date is not below today's date (the date part
  of the clock's ISO string) in the order of strings, so one that expires today stays and
  one dated before today goes; it returns the number of promotions dated before today, and
  it sets the modification time exactly when there is such a promotion. On two strings of
  the form YYYY-MM-DD the order of strings is the order of the dates by year, month and
  day.
\<close>

theorem C4_expiry_sweep:
  "removePromocoesVencidas agora s =
     (case sorveteria s of
        None \<Rightarrow> (0, s)
      | Some e \<Rightarrow>
          (length (filter (\<lambda>p. promo_dataValidade p < split_T_0 (toISOString agora))
                     (promocoesAtivas e)),
           s\<lparr>sorveteria := Some (e\<lparr>promocoesAtivas :=
                  filter (\<lambda>p. split_T_0 (toISOString agora) \<le> promo_dataValidade p)
                    (promocoesAtivas e),
                dateModified :=
                  (if list_ex (\<lambda>p. promo_dataValidade p < split_T_0 (toISOString agora))
                        (promocoesAtivas e)
                   then toISOString agora else dateModified e)\<rparr>)\<rparr>)) \<and>
   (dataRegex (split_T_0 (toISOString agora)) \<and> dataRegex validade \<longrightarrow>
      (split_T_0 (toISOString agora) \<le> validade) =
        nao_posterior (data_ymd (split_T_0 (toISOString agora))) (data_ymd validade))"
proof (rule conjI)
  show "dataRegex (split_T_0 (toISOString agora)) \<and> dataRegex validade \<longrightarrow>
      (split_T_0 (toISOString agora) \<le> validade) =
        nao_posterior (data_ymd (split_T_0 (toISOString agora))) (data_ymd validade)"
    by (simp add: data_ordem)
  show "removePromocoesVencidas agora s =
     (case sorveteria s of
        None \<Rightarrow> (0, s)
      | Some e \<Rightarrow>
          (length (filter (\<lambda>p. promo_dataValidade p < split_T_0 (toISOString agora))
                     (promocoesAtivas e)),
           s\<lparr>sorveteria := Some (e\<lparr>promocoesAtivas :=
                  filter (\<lambda>p. split_T_0 (toISOString agora) \<le> promo_dataValidade p)
                    (promocoesAtivas e),
                dateModified :=
                  (if list_ex (\<lambda>p. promo_dataValidade p < split_T_0 (toISOString agora))
                        (promocoesAtivas e)
                   then toISOString agora else dateModified e)\<rparr>)\<rparr>))"
  proof (cases "sorveteria s")
    case None
    then show ?thesis by (simp add: removePromocoesVencidas_def)
  next
    case (Some e)
    let ?hoje = "split_T_0 (toISOString agora)"
    have n: "length (promocoesAtivas e) -
          length (filter (\<lambda>p. ?hoje \<le> promo_dataValidade p) (promocoesAtivas e)) =
        length (filter (\<lambda>p. promo_dataValidade p < ?hoje) (promocoesAtivas e))"
      by (simp add: length_filter_compl not_le)
    have p: "(0 < length (filter (\<lambda>p. promo_dataValidade p < ?hoje) (promocoesAtivas e))) =
        list_ex (\<lambda>p. promo_dataValidade p < ?hoje) (promocoesAtivas e)"
      by (auto simp: list_ex_iff filter_empty_conv)
    have q: "(length (filter (\<lambda>p. ?hoje \<le> promo_dataValidade p) (promocoesAtivas e)) <
          length (promocoesAtivas e)) =
        list_ex (\<lambda>p. promo_dataValidade p < ?hoje) (promocoesAtivas e)"
      using n p length_filter_le[of "\<lambda>p. ?hoje \<le> promo_dataValidade p" "promocoesAtivas e"]
      by linarith
    show ?thesis
      using Some by (simp add: removePromocoesVencidas_def Let_def n q)
  qed
qed

theorem C4_expiry_sweep_witness:
  "removePromocoesVencidas agora_exemplo store_promocoes =
     (1, store_promocoes\<lparr>sorveteria :=
           Some (entidade_exemplo\<lparr>promocoesAtivas := [promo_hoje],
                   dateModified := toISOString agora_exemplo\<rparr>)\<rparr>) \<and>
   removePromocoesVencidas agora_exemplo store_inicial = (0, store_inicial) \<and>
   dataRegex (split_T_0 (toISOString agora_exemplo)) \<and>
   dataRegex (promo_dataValidade promo_ontem) \<and>
   \<not> nao_posterior (data_ymd (split_T_0 (toISOString agora_exemplo)))
       (data_ymd (promo_dataValidade promo_ontem)) \<and>
   \<not> split_T_0 (toISOString agora_exemplo) \<le> promo_dataValidade promo_ontem"
proof -
  have a: "removePromocoesVencidas agora_exemplo store_promocoes =
     (1, store_promocoes\<lparr>sorveteria :=
           Some (entidade_exemplo\<lparr>promocoesAtivas := [promo_hoje],
                   dateModified := toISOString agora_exemplo\<rparr>)\<rparr>)"
    by (subst conjunct1[OF C4_expiry_sweep]) code_simp
  have b: "removePromocoesVencidas agora_exemplo store_inicial = (0, store_inicial)"
    by (subst conjunct1[OF C4_expiry_sweep]) code_simp
  have r: "dataRegex (split_T_0 (toISOString agora_exemplo))"
    "dataRegex (promo_dataValidade promo_ontem)"
    "\<not> nao_posterior (data_ymd (split_T_0 (toISOString agora_exemplo)))
       (data_ymd (promo_dataValidade promo_ontem))"
    by code_simp+
  from conjunct2[OF C4_expiry_sweep, of agora_exemplo "promo_dataValidade promo_ontem"] r
  have c: "\<not> split_T_0 (toISOString agora_exemplo) \<le> promo_dataValidade promo_ontem"
    by simp
  from a b r c show ?thesis by simp
qed

section \<open>C9: the display order of photos\<close>

lemma findIndex_Some:
  "findIndex P xs = Some k \<Longrightarrow> k < length xs \<and> P (xs ! k) \<and> (\<forall>j<k. \<not> P (xs ! j))"
proof (induction xs arbitrary: k)
  case Nil
  then show ?case by simp
next
  case (Cons x xs)
  show ?case
  proof (cases "P x")
    case True
    with Cons.prems show ?thesis by simp
  next
    case False
    with Cons.prems obtain k' where k': "findIndex P xs = Some k'" "k = Suc k'"
      by auto
    from Cons.IH[OF k'(1)] False k'(2) show ?thesis
      by (auto simp: nth_Cons split: nat.splits)
  qed
qed

lemma sorveteriaAddFoto_Inr:
  assumes "sorveteriaAddFoto amb agora body s = (Inr foto, s')" and "sorveteria s = Some e"
  shows "\<exists>dados. fotoCreateSchema amb body = Some dados \<and> length (fotosAmbiente e) < MAX_FOTOS_AMBIENTE \<and>
           foto = \<lparr>foto_id = fotosCounter s + 1, foto_url = fd_url dados,
                   foto_descricao = fd_descricao dados, foto_categoria = fd_categoria dados,
                   foto_ordem = length (fotosAmbiente e) + 1\<rparr> \<and>
           s' = s\<lparr>sorveteria := Some (e\<lparr>fotosAmbiente := fotosAmbiente e @ [foto],
                                        dateModified := toISOString agora\<rparr>),
                  fotosCounter := fotosCounter s + 1\<rparr>"
  using assms
  by (auto simp: sorveteriaAddFoto_def addFoto_def store_get_def Let_def
      split: option.splits if_splits)

lemma sorveteriaRemoveFoto_Inr:
  assumes "sorveteriaRemoveFoto agora i s = (Inr m, s')" and "sorveteria s = Some e"
  shows "\<exists>k. k < length (fotosAmbiente e) \<and> int (foto_id (fotosAmbiente e ! k)) = i \<and>
           (\<forall>j<k. int (foto_id (fotosAmbiente e ! j)) \<noteq> i) \<and>
           s' = s\<lparr>sorveteria := Some (e\<lparr>fotosAmbiente :=
                     take k (fotosAmbiente e) @ drop (Suc k) (fotosAmbiente e),
                   dateModified := toISOString agora\<rparr>)\<rparr>"
proof -
  from assms obtain n k where n: "paramsSchema i = Some n"
    and k: "findIndex (\<lambda>f. foto_id f = n) (fotosAmbiente e) = Some k"
    and s': "s' = s\<lparr>sorveteria := Some (e\<lparr>fotosAmbiente := splice1 k (fotosAmbiente e),
                   dateModified := toISOString agora\<rparr>)\<rparr>"
    by (auto simp: sorveteriaRemoveFoto_def removeFoto_def
        split: option.splits bool.splits prod.splits)
  from n have i: "i = int n" by (auto simp: paramsSchema_def split: if_splits)
  from findIndex_Some[OF k] i s' show ?thesis
    by (auto simp: splice1_def intro!: exI[of _ k])
qed

text \<open>
  C9. A successful add-photo gives the new photo the display order: length of the photo
  list before the insertion, plus 1, and appends it. A successful remove-photo takes the
  first photo with the id out of the list and leaves every other photo, with its display
  order, as it was. So display orders can repeat: after two adds, the removal of photo 1
  and one more add, the two stored photos both have display order 2.
\<close>

theorem C9_photo_order:
  "(sorveteria s = Some e \<and> sorveteriaAddFoto amb agora body s = (Inr foto, s') \<longrightarrow>
      foto_ordem foto = length (fotosAmbiente e) + 1 \<and>
      (\<exists>e'. sorveteria s' = Some e' \<and> fotosAmbiente e' = fotosAmbiente e @ [foto])) \<and>
   (sorveteria s = Some e \<and> sorveteriaRemoveFoto agora i s = (Inr m, s') \<longrightarrow>
      (\<exists>k e'. k < length (fotosAmbiente e) \<and> int (foto_id (fotosAmbiente e ! k)) = i \<and>
         sorveteria s' = Some e' \<and>
         fotosAmbiente e' = take k (fotosAmbiente e) @ drop (Suc k) (fotosAmbiente e))) \<and>
   map foto_ordem
     (fotos_de (adicionar_foto_exemplo
        (snd (sorveteriaRemoveFoto agora_exemplo 1
           (adicionar_foto_exemplo (adicionar_foto_exemplo store_exemplo)))))) = [2, 2]"
proof -
  have add: "foto_ordem foto = length (fotosAmbiente e) + 1 \<and>
      (\<exists>e'. sorveteria s' = Some e' \<and> fotosAmbiente e' = fotosAmbiente e @ [foto])"
    if "sorveteria s = Some e" "sorveteriaAddFoto amb agora body s = (Inr foto, s')"
    using sorveteriaAddFoto_Inr[OF that(2) that(1)] by auto
  have rem: "\<exists>k e'. k < length (fotosAmbiente e) \<and> int (foto_id (fotosAmbiente e ! k)) = i \<and>
         sorveteria s' = Some e' \<and>
         fotosAmbiente e' = take k (fotosAmbiente e) @ drop (Suc k) (fotosAmbiente e)"
    if "sorveteria s = Some e" "sorveteriaRemoveFoto agora i s = (Inr m, s')"
    using sorveteriaRemoveFoto_Inr[OF that(2) that(1)] by auto
  have ex: "map foto_ordem
     (fotos_de (adicionar_foto_exemplo
        (snd (sorveteriaRemoveFoto agora_exemplo 1
           (adicionar_foto_exemplo (adicionar_foto_exemplo store_exemplo)))))) = [2, 2]"
    by code_simp
  from add rem ex show ?thesis by blast
qed

theorem C9_photo_order_witness:
  "sorveteria store_exemplo = Some entidade_exemplo \<and>
   sorveteriaAddFoto amb_exemplo agora_exemplo foto_body_exemplo store_exemplo =
     (Inr foto_exemplo, adicionar_foto_exemplo store_exemplo) \<and>
   foto_ordem foto_exemplo = length (fotosAmbiente entidade_exemplo) + 1 \<and>
   fotos_de (adicionar_foto_exemplo store_exemplo) = [foto_exemplo] \<and>
   sorveteriaRemoveFoto agora_exemplo 1 (adicionar_foto_exemplo store_exemplo) =
     (Inr (js ''Photo removed successfully''),
      snd (sorveteriaRemoveFoto agora_exemplo 1 (adicionar_foto_exemplo store_exemplo))) \<and>
   fotos_de (snd (sorveteriaRemoveFoto agora_exemplo 1 (adicionar_foto_exemplo store_exemplo))) = []"
proof -
  let ?s1 = "adicionar_foto_exemplo store_exemplo"
  let ?s2 = "snd (sorveteriaRemoveFoto agora_exemplo 1 ?s1)"
  have h1: "sorveteria store_exemplo = Some entidade_exemplo" by (simp add: store_exemplo_def)
  have a: "sorveteriaAddFoto amb_exemplo agora_exemplo foto_body_exemplo store_exemplo =
      (Inr foto_exemplo, ?s1)"
    by code_simp
  have e0: "fotosAmbiente entidade_exemplo = []" by (simp add: entidade_exemplo_def)
  from C9_photo_order[of store_exemplo entidade_exemplo amb_exemplo agora_exemplo foto_body_exemplo
      foto_exemplo ?s1] h1 a e0
  obtain e' where o: "foto_ordem foto_exemplo = length (fotosAmbiente entidade_exemplo) + 1"
    and e': "sorveteria ?s1 = Some e'" "fotosAmbiente e' = [foto_exemplo]"
    by auto
  have r: "sorveteriaRemoveFoto agora_exemplo 1 ?s1 = (Inr (js ''Photo removed successfully''), ?s2)"
    by code_simp
  from C9_photo_order[of ?s1 e' amb_exemplo agora_exemplo foto_body_exemplo foto_exemplo ?s2 1
      "js ''Photo removed successfully''"] e' r
  obtain e'' where "sorveteria ?s2 = Some e''" "fotosAmbiente e'' = []"
    by auto
  with h1 a o e' r show ?thesis
    by (simp add: fotos_de_def)
qed

section \<open>C10: testimonials and the modification time\<close>

text \<open>
  C10, as stated, fails in its last part: the status recompute is a mutating operation that
  does not refresh the modification time. Here it changes the status of the example record
  from open to closed, at a clock reading other than the record's modification time, and
  the modification time stays.
\<close>

theorem C10_counterexample:
  "statusFuncionamento entidade_exemplo = Aberto \<and>
   dateModified entidade_exemplo \<noteq> toISOString agora_noite \<and>
   updateStatusFuncionamento agora_noite store_exemplo =
     Some (store_exemplo\<lparr>sorveteria := Some (entidade_exemplo\<lparr>statusFuncionamento := Fechado\<rparr>)\<rparr>) \<and>
   dateModified (entidade_exemplo\<lparr>statusFuncionamento := Fechado\<rparr>) = dateModified entidade_exemplo"
  by code_simp

lemma filter_mesmo_comprimento: "length (filter P xs) = length xs \<Longrightarrow> filter P xs = xs"
  by (metis filter_True length_filter_less less_irrefl)

text \<open>
  C10, amended. Adding a testimonial changes, in the record, the testimonial list, the
  average rating and the rating count only (and in the store the testimonial counter), and
  so does a successful update of a moderation status; a failed one changes nothing. The
  modification time is left as it was. Of the other operations of the store, \<open>set\<close>,
  \<open>update\<close>, \<open>addFoto\<close>, a successful \<open>removeFoto\<close>, \<open>addPromocao\<close> and an
  expiry sweep that removes something set the modification time to the clock reading; a
  sweep that removes nothing and a failed \<open>removeFoto\<close> change nothing; the status
  recompute changes the status and leaves the modification time.
\<close>

theorem C10_testimonials_keep_timestamp:
  assumes "sorveteria s = Some e"
  shows
    "(\<exists>d ds m t. addDepoimento agora dep s =
        (Some d, s\<lparr>sorveteria := Some (e\<lparr>depoimentos := ds, avaliacaoMedia := m,
                                         totalAvaliacoes := t\<rparr>),
                   depoimentosCounter := depoimentosCounter s + 1\<rparr>)) \<and>
     (updateDepoimentoStatus i st s = (None, s) \<or>
      (\<exists>d ds m t. updateDepoimentoStatus i st s =
        (Some d, s\<lparr>sorveteria := Some (e\<lparr>depoimentos := ds, avaliacaoMedia := m,
                                         totalAvaliacoes := t\<rparr>)\<rparr>))) \<and>
     (\<exists>e'. store_set agora dados s = (e', s\<lparr>sorveteria := Some e'\<rparr>) \<and>
        dateModified e' = toISOString agora) \<and>
     (\<exists>e'. store_update agora u s = (Some e', s\<lparr>sorveteria := Some e'\<rparr>) \<and>
        dateModified e' = toISOString agora) \<and>
     (\<exists>f e'. addFoto agora foto s =
        (Some f, s\<lparr>sorveteria := Some e', fotosCounter := fotosCounter s + 1\<rparr>) \<and>
        dateModified e' = toISOString agora) \<and>
     (removeFoto agora fotoId s = (False, s) \<or>
      (\<exists>e'. removeFoto agora fotoId s = (True, s\<lparr>sorveteria := Some e'\<rparr>) \<and>
         dateModified e' = toISOString agora)) \<and>
     (\<exists>p e'. addPromocao agora promocao s =
        (Some p, s\<lparr>sorveteria := Some e', promocoesCounter := promocoesCounter s + 1\<rparr>) \<and>
        dateModified e' = toISOString agora) \<and>
     (removePromocoesVencidas agora s = (0, s) \<or>
      (\<exists>n e'. removePromocoesVencidas agora s = (n, s\<lparr>sorveteria := Some e'\<rparr>) \<and> 0 < n \<and>
         dateModified e' = toISOString agora)) \<and>
     (updateStatusFuncionamento agora s = None \<or>
      (\<exists>st'. updateStatusFuncionamento agora s =
         Some (s\<lparr>sorveteria := Some (e\<lparr>statusFuncionamento := st'\<rparr>)\<rparr>)))"
proof -
  have s: "s\<lparr>sorveteria := Some e\<rparr> = s" using assms by simp
  have ad: "\<exists>d ds m t. addDepoimento agora dep s =
        (Some d, s\<lparr>sorveteria := Some (e\<lparr>depoimentos := ds, avaliacaoMedia := m,
                                         totalAvaliacoes := t\<rparr>),
                   depoimentosCounter := depoimentosCounter s + 1\<rparr>)"
  proof -
    let ?d = "\<lparr>dep_id = depoimentosCounter s + 1, dep_nomeCliente = dc_nomeCliente dep,
               dep_texto = dc_texto dep, dep_avaliacao = dc_avaliacao dep,
               dep_statusModeracao = PENDENTE, dep_dataCriacao = toISOString agora\<rparr>"
    let ?e1 = "e\<lparr>depoimentos := depoimentos e @ [?d]\<rparr>"
    let ?s1 = "s\<lparr>sorveteria := Some ?e1, depoimentosCounter := depoimentosCounter s + 1\<rparr>"
    have a: "addDepoimento agora dep s = (Some ?d, recalcularAvaliacaoMedia ?s1)"
      using assms by (simp add: addDepoimento_def Let_def)
    from recalcular_campos[of ?s1 ?e1] obtain m t where
      "recalcularAvaliacaoMedia ?s1 =
         ?s1\<lparr>sorveteria := Some (?e1\<lparr>avaliacaoMedia := m, totalAvaliacoes := t\<rparr>)\<rparr>"
      by auto
    with a have "addDepoimento agora dep s =
        (Some ?d, s\<lparr>sorveteria := Some (e\<lparr>depoimentos := depoimentos e @ [?d],
                      avaliacaoMedia := m, totalAvaliacoes := t\<rparr>),
                   depoimentosCounter := depoimentosCounter s + 1\<rparr>)"
      by simp
    then show ?thesis by blast
  qed
  have ud: "updateDepoimentoStatus i st s = (None, s) \<or>
      (\<exists>d ds m t. updateDepoimentoStatus i st s =
        (Some d, s\<lparr>sorveteria := Some (e\<lparr>depoimentos := ds, avaliacaoMedia := m,
                                         totalAvaliacoes := t\<rparr>)\<rparr>))"
  proof (cases "findIndex (\<lambda>d. dep_id d = i) (depoimentos e)")
    case None
    with assms show ?thesis by (simp add: updateDepoimentoStatus_def)
  next
    case (Some k)
    let ?d = "(depoimentos e ! k)\<lparr>dep_statusModeracao := st\<rparr>"
    let ?e1 = "e\<lparr>depoimentos := (depoimentos e)[k := ?d]\<rparr>"
    let ?s1 = "s\<lparr>sorveteria := Some ?e1\<rparr>"
    have a: "updateDepoimentoStatus i st s = (Some ?d, recalcularAvaliacaoMedia ?s1)"
      using assms Some by (simp add: updateDepoimentoStatus_def Let_def)
    from recalcular_campos[of ?s1 ?e1] obtain m t where
      "recalcularAvaliacaoMedia ?s1 =
         ?s1\<lparr>sorveteria := Some (?e1\<lparr>avaliacaoMedia := m, totalAvaliacoes := t\<rparr>)\<rparr>"
      by auto
    with a have "updateDepoimentoStatus i st s =
        (Some ?d, s\<lparr>sorveteria := Some (e\<lparr>depoimentos := (depoimentos e)[k := ?d],
                      avaliacaoMedia := m, totalAvaliacoes := t\<rparr>)\<rparr>)"
      by simp
    then show ?thesis by blast
  qed
  have st: "\<exists>e'. store_set agora dados s = (e', s\<lparr>sorveteria := Some e'\<rparr>) \<and>
        dateModified e' = toISOString agora"
    using assms by (auto simp: store_set_def entidade_def Let_def)
  have up: "\<exists>e'. store_update agora u s = (Some e', s\<lparr>sorveteria := Some e'\<rparr>) \<and>
        dateModified e' = toISOString agora"
    using assms by (auto simp: store_update_def Let_def)
  have af: "\<exists>f e'. addFoto agora foto s =
        (Some f, s\<lparr>sorveteria := Some e', fotosCounter := fotosCounter s + 1\<rparr>) \<and>
        dateModified e' = toISOString agora"
    using assms by (auto simp: addFoto_def Let_def)
  have rf: "removeFoto agora fotoId s = (False, s) \<or>
      (\<exists>e'. removeFoto agora fotoId s = (True, s\<lparr>sorveteria := Some e'\<rparr>) \<and>
         dateModified e' = toISOString agora)"
    using assms by (auto simp: removeFoto_def split: option.splits)
  have ap: "\<exists>p e'. addPromocao agora promocao s =
        (Some p, s\<lparr>sorveteria := Some e', promocoesCounter := promocoesCounter s + 1\<rparr>) \<and>
        dateModified e' = toISOString agora"
    using assms by (auto simp: addPromocao_def Let_def)
  have rp: "removePromocoesVencidas agora s = (0, s) \<or>
      (\<exists>n e'. removePromocoesVencidas agora s = (n, s\<lparr>sorveteria := Some e'\<rparr>) \<and> 0 < n \<and>
         dateModified e' = toISOString agora)"
  proof (cases "length (filter (\<lambda>p. split_T_0 (toISOString agora) \<le> promo_dataValidade p)
      (promocoesAtivas e)) = length (promocoesAtivas e)")
    case True
    from filter_mesmo_comprimento[OF True] True assms s
    have "removePromocoesVencidas agora s = (0, s)"
      by (simp add: removePromocoesVencidas_def Let_def)
    then show ?thesis by simp
  next
    case False
    with length_filter_le[of "\<lambda>p. split_T_0 (toISOString agora) \<le> promo_dataValidade p"
        "promocoesAtivas e"]
    have "length (filter (\<lambda>p. split_T_0 (toISOString agora) \<le> promo_dataValidade p)
      (promocoesAtivas e)) < length (promocoesAtivas e)"
      by linarith
    with assms show ?thesis
      by (auto simp: removePromocoesVencidas_def Let_def)
  qed
  have us: "updateStatusFuncionamento agora s = None \<or>
      (\<exists>st'. updateStatusFuncionamento agora s =
         Some (s\<lparr>sorveteria := Some (e\<lparr>statusFuncionamento := st'\<rparr>)\<rparr>))"
    using assms by (auto simp: updateStatusFuncionamento_def split: option.splits)
  from ad ud st up af rf ap rp us show ?thesis
    by blast
qed

theorem C10_testimonials_keep_timestamp_witness:
  "sorveteria store_exemplo = Some entidade_exemplo \<and>
   dateModified entidade_exemplo \<noteq> toISOString agora_noite \<and>
   map_option dateModified
     (sorveteria (snd (addDepoimento agora_noite depoimento_body_exemplo store_exemplo))) =
     Some (dateModified entidade_exemplo) \<and>
   map_option dateModified
     (sorveteria (snd (updateDepoimentoStatus 1 APROVADO
        (snd (addDepoimento agora_noite depoimento_body_exemplo store_exemplo))))) =
     Some (dateModified entidade_exemplo) \<and>
   map_option avaliacaoMedia
     (sorveteria (snd (updateDepoimentoStatus 1 APROVADO
        (snd (addDepoimento agora_noite depoimento_body_exemplo store_exemplo))))) =
     Some (Some 5)"
proof -
  let ?s1 = "snd (addDepoimento agora_noite depoimento_body_exemplo store_exemplo)"
  let ?s2 = "snd (updateDepoimentoStatus 1 APROVADO ?s1)"
  have h: "sorveteria store_exemplo = Some entidade_exemplo" by (simp add: store_exemplo_def)
  have n: "dateModified entidade_exemplo \<noteq> toISOString agora_noite" by code_simp
  from C10_testimonials_keep_timestamp[OF h, where agora = agora_noite and
      dep = depoimento_body_exemplo]
  obtain d ds m t where a: "addDepoimento agora_noite depoimento_body_exemplo store_exemplo =
      (Some d, store_exemplo\<lparr>sorveteria := Some (entidade_exemplo\<lparr>depoimentos := ds,
           avaliacaoMedia := m, totalAvaliacoes := t\<rparr>),
         depoimentosCounter := depoimentosCounter store_exemplo + 1\<rparr>)"
    by blast
  let ?e1 = "entidade_exemplo\<lparr>depoimentos := ds, avaliacaoMedia := m, totalAvaliacoes := t\<rparr>"
  from a have h1: "sorveteria ?s1 = Some ?e1" by simp
  then have d1: "map_option dateModified (sorveteria ?s1) = Some (dateModified entidade_exemplo)"
    by simp
  have nn: "updateDepoimentoStatus 1 APROVADO ?s1 \<noteq> (None, ?s1)" by code_simp
  from C10_testimonials_keep_timestamp[OF h1, where i = 1 and st = APROVADO] nn
  obtain d' ds' m' t' where "updateDepoimentoStatus 1 APROVADO ?s1 =
      (Some d', ?s1\<lparr>sorveteria := Some (?e1\<lparr>depoimentos := ds', avaliacaoMedia := m',
           totalAvaliacoes := t'\<rparr>)\<rparr>)"
    by blast
  then have d2: "map_option dateModified (sorveteria ?s2) = Some (dateModified entidade_exemplo)"
    by simp
  have m2: "map_option avaliacaoMedia (sorveteria ?s2) = Some (Some 5)" by code_simp
  from h n d1 d2 m2 show ?thesis by simp
qed

section \<open>C7: the limit of twelve photos\<close>

lemma msg_fotos: "js ''Maximum of '' @ jsString MAX_FOTOS_AMBIENTE @ js '' photos allowed'' =
    js ''Maximum of 12 photos allowed''"
  by code_simp

lemma sorveteriaAddFoto_erro:
  assumes "fst (sorveteriaAddFoto amb agora body s) = Inl err"
  shows "snd (sorveteriaAddFoto amb agora body s) = s"
proof (cases "fotoCreateSchema amb body")
  case None
  then show ?thesis by (simp add: sorveteriaAddFoto_def)
next
  case dados: (Some dados)
  show ?thesis
  proof (cases "sorveteria s")
    case None
    with dados show ?thesis by (simp add: sorveteriaAddFoto_def store_get_def)
  next
    case (Some e)
    show ?thesis
    proof (cases "MAX_FOTOS_AMBIENTE \<le> length (fotosAmbiente e)")
      case True
      with dados Some show ?thesis by (simp add: sorveteriaAddFoto_def store_get_def)
    next
      case False
      with dados Some assms show ?thesis
        by (simp add: sorveteriaAddFoto_def store_get_def addFoto_def Let_def)
    qed
  qed
qed

lemma sorveteriaAddFoto_limite:
  "fst (sorveteriaAddFoto amb agora body s) = Inl (ServiceError LIMIT_EXCEEDED msg c) \<Longrightarrow>
   \<exists>e. sorveteria s = Some e \<and> MAX_FOTOS_AMBIENTE \<le> length (fotosAmbiente e)"
  by (auto simp: sorveteriaAddFoto_def addFoto_def store_get_def Let_def
      split: option.splits if_splits)

lemma sorveteriaAddFoto_cheio:
  "fotoCreateSchema amb body = Some dados \<Longrightarrow> sorveteria s = Some e \<Longrightarrow>
   MAX_FOTOS_AMBIENTE \<le> length (fotosAmbiente e) \<Longrightarrow>
   sorveteriaAddFoto amb agora body s =
     (Inl (ServiceError LIMIT_EXCEEDED (js ''Maximum of 12 photos allowed'') 400), s)"
  by (simp add: sorveteriaAddFoto_def store_get_def msg_fotos)

lemma sorveteriaAddFoto_livre:
  "fotoCreateSchema amb body = Some dados \<Longrightarrow> sorveteria s = Some e \<Longrightarrow>
   length (fotosAmbiente e) < MAX_FOTOS_AMBIENTE \<Longrightarrow>
   \<exists>foto s'. sorveteriaAddFoto amb agora body s = (Inr foto, s') \<and>
     map_option fotosAmbiente (sorveteria s') = Some (fotosAmbiente e @ [foto])"
  by (simp add: sorveteriaAddFoto_def store_get_def addFoto_def Let_def)

lemma alcancavel_fotos:
  "alcancavel amb s \<Longrightarrow> sorveteria s = Some e \<Longrightarrow> length (fotosAmbiente e) \<le> MAX_FOTOS_AMBIENTE"
  using alcancavel_limites[of amb s] by (simp add: limites_def dentro_dos_limites_def)

lemma adicionar_apos_remover:
  assumes a: "alcancavel amb s" and r: "sorveteriaRemoveFoto agora i s = (Inr m, s1)"
    and v: "fotoCreateSchema amb body = Some dados"
  shows "\<exists>foto s2. sorveteriaAddFoto amb agora' body s1 = (Inr foto, s2)"
proof -
  from r obtain e0 where e0: "sorveteria s = Some e0"
    by (cases "sorveteria s")
      (simp_all add: sorveteriaRemoveFoto_def removeFoto_def split: option.splits)
  from sorveteriaRemoveFoto_Inr[OF r e0] obtain k where
    k: "k < length (fotosAmbiente e0)" and
    s1: "s1 = s\<lparr>sorveteria := Some (e0\<lparr>fotosAmbiente :=
                   take k (fotosAmbiente e0) @ drop (Suc k) (fotosAmbiente e0),
                 dateModified := toISOString agora\<rparr>)\<rparr>"
    by auto
  let ?e1 = "e0\<lparr>fotosAmbiente := take k (fotosAmbiente e0) @ drop (Suc k) (fotosAmbiente e0),
                 dateModified := toISOString agora\<rparr>"
  have h1: "sorveteria s1 = Some ?e1" using s1 by simp
  have h2: "length (fotosAmbiente ?e1) < MAX_FOTOS_AMBIENTE"
    using alcancavel_fotos[OF a e0] k by simp
  from sorveteriaAddFoto_livre[OF v h1 h2, of agora'] show ?thesis
    by auto
qed

text \<open>
  C7. For a valid photo request and a store with a record, add-photo fails with
  LIMIT_EXCEEDED when the photo list holds 12 photos or more and succeeds, appending the
  photo, when it holds fewer; it fails with LIMIT_EXCEEDED in no other case; every failed
  add leaves the store as it was. A reachable store never holds more than 12 photos, so
  after a successful remove-photo a valid add-photo succeeds.
\<close>

theorem C7_photo_limit:
  "(fotoCreateSchema amb body = Some dados \<and> sorveteria s = Some e \<longrightarrow>
      (12 \<le> length (fotosAmbiente e) \<longrightarrow>
         sorveteriaAddFoto amb agora body s =
           (Inl (ServiceError LIMIT_EXCEEDED (js ''Maximum of 12 photos allowed'') 400), s)) \<and>
      (length (fotosAmbiente e) < 12 \<longrightarrow>
         (\<exists>foto s'. sorveteriaAddFoto amb agora body s = (Inr foto, s') \<and>
            map_option fotosAmbiente (sorveteria s') = Some (fotosAmbiente e @ [foto])))) \<and>
   ((\<exists>msg c. fst (sorveteriaAddFoto amb agora body s) = Inl (ServiceError LIMIT_EXCEEDED msg c)) \<longrightarrow>
      (\<exists>e. sorveteria s = Some e \<and> 12 \<le> length (fotosAmbiente e))) \<and>
   ((\<exists>err. fst (sorveteriaAddFoto amb agora body s) = Inl err) \<longrightarrow>
      snd (sorveteriaAddFoto amb agora body s) = s) \<and>
   (alcancavel amb s \<and> sorveteria s = Some e \<longrightarrow> length (fotosAmbiente e) \<le> 12) \<and>
   (alcancavel amb s \<and> sorveteriaRemoveFoto agora i s = (Inr m, s1) \<and>
    fotoCreateSchema amb body = Some dados \<longrightarrow>
      (\<exists>foto s2. sorveteriaAddFoto amb agora' body s1 = (Inr foto, s2)))"
proof (intro conjI impI; (elim conjE exE)?)
  assume h: "fotoCreateSchema amb body = Some dados" "sorveteria s = Some e"
    and l: "12 \<le> length (fotosAmbiente e)"
  from l have "MAX_FOTOS_AMBIENTE \<le> length (fotosAmbiente e)"
    by (simp add: MAX_FOTOS_AMBIENTE_def)
  from sorveteriaAddFoto_cheio[OF h this]
  show "sorveteriaAddFoto amb agora body s =
           (Inl (ServiceError LIMIT_EXCEEDED (js ''Maximum of 12 photos allowed'') 400), s)" .
next
  assume h: "fotoCreateSchema amb body = Some dados" "sorveteria s = Some e"
    and l: "length (fotosAmbiente e) < 12"
  from l have "length (fotosAmbiente e) < MAX_FOTOS_AMBIENTE"
    by (simp add: MAX_FOTOS_AMBIENTE_def)
  from sorveteriaAddFoto_livre[OF h this]
  show "\<exists>foto s'. sorveteriaAddFoto amb agora body s = (Inr foto, s') \<and>
            map_option fotosAmbiente (sorveteria s') = Some (fotosAmbiente e @ [foto])" .
next
  fix msg c
  assume "fst (sorveteriaAddFoto amb agora body s) = Inl (ServiceError LIMIT_EXCEEDED msg c)"
  from sorveteriaAddFoto_limite[OF this]
  show "\<exists>e. sorveteria s = Some e \<and> 12 \<le> length (fotosAmbiente e)"
    by (simp add: MAX_FOTOS_AMBIENTE_def)
next
  fix err
  assume "fst (sorveteriaAddFoto amb agora body s) = Inl err"
  then show "snd (sorveteriaAddFoto amb agora body s) = s"
    by (rule sorveteriaAddFoto_erro)
next
  assume "alcancavel amb s" "sorveteria s = Some e"
  from alcancavel_fotos[OF this] show "length (fotosAmbiente e) \<le> 12"
    by (simp add: MAX_FOTOS_AMBIENTE_def)
next
  assume "alcancavel amb s" "sorveteriaRemoveFoto agora i s = (Inr m, s1)"
    "fotoCreateSchema amb body = Some dados"
  then show "\<exists>foto s2. sorveteriaAddFoto amb agora' body s1 = (Inr foto, s2)"
    by (rule adicionar_apos_remover)
qed

lemma fotoCreateSchema_exemplo:
  "fotoCreateSchema amb_exemplo foto_body_exemplo =
      Some \<lparr>fd_url = js ''https://tommasi.example/balcao.jpg'', fd_descricao = None,
             fd_categoria = BALCAO\<rparr>"
  by code_simp

lemma dateModified_exemplo: "dateModified entidade_exemplo = toISOString agora_exemplo"
  by code_simp

lemma adicionar_foto_store_com_fotos:
  assumes "n < 12"
  shows "sorveteriaAddFoto amb_exemplo agora_exemplo foto_body_exemplo (store_com_fotos n) =
     (Inr (foto_exemplo\<lparr>foto_id := Suc n, foto_ordem := Suc n\<rparr>), store_com_fotos (Suc n))"
proof -
  have "entidade_exemplo\<lparr>fotosAmbiente := xs, dateModified := toISOString agora_exemplo\<rparr> =
      entidade_exemplo\<lparr>fotosAmbiente := xs\<rparr>" for xs
    using dateModified_exemplo by simp
  then show ?thesis
    using assms
    by (simp add: sorveteriaAddFoto_def fotoCreateSchema_exemplo store_get_def store_com_fotos_def
        store_exemplo_def MAX_FOTOS_AMBIENTE_def addFoto_def Let_def foto_exemplo_def)
qed

lemma store_com_fotos_alcancavel: "n \<le> 12 \<Longrightarrow> alcancavel amb_exemplo (store_com_fotos n)"
proof (induction n)
  case 0
  have "store_com_fotos 0 = store_exemplo"
    by (simp add: store_com_fotos_def store_exemplo_def entidade_exemplo_def)
  then show ?case by (simp add: store_exemplo_alcancavel)
next
  case (Suc n)
  then have "alcancavel amb_exemplo (store_com_fotos n)" "n < 12" by simp_all
  from alcancavel.addFoto[OF this(1), of agora_exemplo foto_body_exemplo]
    adicionar_foto_store_com_fotos[OF this(2)]
  show ?case by simp
qed

theorem C7_photo_limit_witness:
  "alcancavel amb_exemplo (store_com_fotos 12) \<and>
   sorveteriaAddFoto amb_exemplo agora_exemplo foto_body_exemplo (store_com_fotos 11) =
     (Inr (foto_exemplo\<lparr>foto_id := 12, foto_ordem := 12\<rparr>), store_com_fotos 12) \<and>
   sorveteriaAddFoto amb_exemplo agora_exemplo foto_body_exemplo (store_com_fotos 12) =
     (Inl (ServiceError LIMIT_EXCEEDED (js ''Maximum of 12 photos allowed'') 400),
      store_com_fotos 12) \<and>
   sorveteriaRemoveFoto agora_exemplo 5 (store_com_fotos 12) =
     (Inr (js ''Photo removed successfully''),
      snd (sorveteriaRemoveFoto agora_exemplo 5 (store_com_fotos 12))) \<and>
   (\<exists>foto s2. sorveteriaAddFoto amb_exemplo agora_exemplo foto_body_exemplo
       (snd (sorveteriaRemoveFoto agora_exemplo 5 (store_com_fotos 12))) = (Inr foto, s2))"
proof -
  let ?e = "entidade_exemplo\<lparr>fotosAmbiente :=
                 map (\<lambda>k. foto_exemplo\<lparr>foto_id := k, foto_ordem := k\<rparr>) [1..<Suc 12]\<rparr>"
  have a: "alcancavel amb_exemplo (store_com_fotos 12)"
    by (rule store_com_fotos_alcancavel) simp
  have b: "sorveteriaAddFoto amb_exemplo agora_exemplo foto_body_exemplo (store_com_fotos 11) =
     (Inr (foto_exemplo\<lparr>foto_id := 12, foto_ordem := 12\<rparr>), store_com_fotos 12)"
    using adicionar_foto_store_com_fotos[of 11] by simp
  have e: "sorveteria (store_com_fotos 12) = Some ?e"
    by (simp add: store_com_fotos_def)
  have l: "12 \<le> length (fotosAmbiente ?e)"
    by simp
  have r: "sorveteriaRemoveFoto agora_exemplo 5 (store_com_fotos 12) =
     (Inr (js ''Photo removed successfully''),
      snd (sorveteriaRemoveFoto agora_exemplo 5 (store_com_fotos 12)))"
    by code_simp
  note C7 = C7_photo_limit[where amb = amb_exemplo and body = foto_body_exemplo and
      s = "store_com_fotos 12" and e = ?e and agora = agora_exemplo and i = 5 and
      m = "js ''Photo removed successfully''" and
      ?s1.0 = "snd (sorveteriaRemoveFoto agora_exemplo 5 (store_com_fotos 12))" and
      agora' = agora_exemplo]
  from C7 fotoCreateSchema_exemplo e l
  have f: "sorveteriaAddFoto amb_exemplo agora_exemplo foto_body_exemplo (store_com_fotos 12) =
     (Inl (ServiceError LIMIT_EXCEEDED (js ''Maximum of 12 photos allowed'') 400),
      store_com_fotos 12)"
    by fast
  from C7 a r fotoCreateSchema_exemplo
  have g: "\<exists>foto s2. sorveteriaAddFoto amb_exemplo agora_exemplo foto_body_exemplo
       (snd (sorveteriaRemoveFoto agora_exemplo 5 (store_com_fotos 12))) = (Inr foto, s2)"
    by fast
  from a b f r g show ?thesis by simp
qed

section \<open>C5: the limits on promotions\<close>

lemma msg_promocoes:
  "js ''Maximum of '' @ jsString MAX_PROMOCOES @ js '' active promotions allowed'' =
    js ''Maximum of 3 active promotions allowed''"
  by code_simp

lemma sorveteriaAddPromocao_cheio:
  "promocaoCreateSchema body = Some dados \<Longrightarrow> sorveteria s = Some e \<Longrightarrow>
   MAX_PROMOCOES \<le> length (promocoesAtivas e) \<Longrightarrow>
   sorveteriaAddPromocao agora body s =
     (Inl (ServiceError LIMIT_EXCEEDED (js ''Maximum of 3 active promotions allowed'') 400), s)"
  by (simp add: sorveteriaAddPromocao_def store_get_def msg_promocoes)

lemma sorveteriaAddPromocao_conflito:
  "promocaoCreateSchema body = Some dados \<Longrightarrow> sorveteria s = Some e \<Longrightarrow>
   length (promocoesAtivas e) < MAX_PROMOCOES \<Longrightarrow> pd_prioridade dados = 1 \<Longrightarrow>
   \<exists>p\<in>set (promocoesAtivas e). promo_prioridade p = 1 \<Longrightarrow>
   sorveteriaAddPromocao agora body s =
     (Inl (ServiceError PRIORITY_CONFLICT (js ''Only one promotion can have priority 1'') 400), s)"
  by (simp add: sorveteriaAddPromocao_def store_get_def list_ex_iff)

lemma sorveteriaAddPromocao_livre:
  "promocaoCreateSchema body = Some dados \<Longrightarrow> sorveteria s = Some e \<Longrightarrow>
   length (promocoesAtivas e) < MAX_PROMOCOES \<Longrightarrow>
   pd_prioridade dados \<noteq> 1 \<or> (\<forall>p\<in>set (promocoesAtivas e). promo_prioridade p \<noteq> 1) \<Longrightarrow>
   \<exists>p s'. sorveteriaAddPromocao agora body s = (Inr p, s') \<and>
     promo_prioridade p = pd_prioridade dados \<and>
     map_option promocoesAtivas (sorveteria s') = Some (promocoesAtivas e @ [p])"
  by (auto simp: sorveteriaAddPromocao_def store_get_def list_ex_iff addPromocao_def Let_def)

lemma promocaoCreateSchema_prioridade:
  "promocaoCreateSchema body = Some dados \<Longrightarrow> pd_prioridade dados = pc_prioridade body"
  by (cases "enumTipoPromocao (pc_tipo body)")
    (auto simp: promocaoCreateSchema_def split: if_splits)

lemma alcancavel_promocoes:
  "alcancavel amb s \<Longrightarrow> sorveteria s = Some e \<Longrightarrow>
   length (promocoesAtivas e) \<le> MAX_PROMOCOES \<and>
   length (filter (\<lambda>p. promo_prioridade p = 1) (promocoesAtivas e)) \<le> 1"
  using alcancavel_limites[of amb s] by (simp add: limites_def dentro_dos_limites_def)

lemma promocaoCreateSchema_exemplo:
  "promocaoCreateSchema (promocao_body 1) =
     Some \<lparr>pd_titulo = js ''Casquinha em dobro'', pd_descricao = js ''Leve duas'',
            pd_dataValidade = js ''2024-06-30'', pd_prioridade = 1, pd_tipo = COMBO\<rparr>"
  by code_simp

lemma store_3_promocoes_alcancavel: "alcancavel amb_exemplo store_3_promocoes"
  unfolding store_3_promocoes_def adicionar_promocao_exemplo_def
  by (intro alcancavel.addPromocao store_exemplo_alcancavel)

text \<open>
  C5, as stated, fails in one case: with three active promotions, one of them of priority
  1, a valid request of priority 1 fails with LIMIT_EXCEEDED, not with PRIORITY_CONFLICT,
  because the count is checked first. The store below is reached by three add-promotion
  requests of priorities 1, 2 and 3.
\<close>

theorem C5_counterexample:
  "alcancavel amb_exemplo store_3_promocoes \<and>
   map promo_prioridade (promocoes_de store_3_promocoes) = [1, 2, 3] \<and>
   map promo_ativa (promocoes_de store_3_promocoes) = [True, True, True] \<and>
   pc_prioridade (promocao_body 1) = 1 \<and>
   promocaoCreateSchema (promocao_body 1) \<noteq> None \<and>
   sorveteriaAddPromocao agora_exemplo (promocao_body 1) store_3_promocoes =
     (Inl (ServiceError LIMIT_EXCEEDED (js ''Maximum of 3 active promotions allowed'') 400),
      store_3_promocoes)"
proof -
  have "map promo_prioridade (promocoes_de store_3_promocoes) = [1, 2, 3]"
    "map promo_ativa (promocoes_de store_3_promocoes) = [True, True, True]"
    "pc_prioridade (promocao_body 1) = 1"
    "promocaoCreateSchema (promocao_body 1) \<noteq> None"
    "sorveteriaAddPromocao agora_exemplo (promocao_body 1) store_3_promocoes =
     (Inl (ServiceError LIMIT_EXCEEDED (js ''Maximum of 3 active promotions allowed'') 400),
      store_3_promocoes)"
    by code_simp+
  with store_3_promocoes_alcancavel show ?thesis by simp
qed

text \<open>
  C5, amended. In every reachable store the record holds at most 3 active promotions and at
  most one of priority 1. A valid add-promotion fails with LIMIT_EXCEEDED when 3 or more
  are active; with fewer than 3 active it fails with PRIORITY_CONFLICT when its priority is
  1 and an active promotion has priority 1; both failures leave the store as it was. In
  the remaining case it succeeds and appends the promotion.
\<close>

theorem C5_promotion_limits:
  "(alcancavel amb s \<and> sorveteria s = Some e \<longrightarrow>
      length (promocoesAtivas e) \<le> 3 \<and>
      length (filter (\<lambda>p. promo_prioridade p = 1) (promocoesAtivas e)) \<le> 1) \<and>
   (promocaoCreateSchema body = Some dados \<and> sorveteria s = Some e \<and>
    3 \<le> length (promocoesAtivas e) \<longrightarrow>
      sorveteriaAddPromocao agora body s =
        (Inl (ServiceError LIMIT_EXCEEDED (js ''Maximum of 3 active promotions allowed'') 400), s)) \<and>
   (promocaoCreateSchema body = Some dados \<and> sorveteria s = Some e \<and>
    length (promocoesAtivas e) < 3 \<and> pc_prioridade body = 1 \<and>
    (\<exists>p\<in>set (promocoesAtivas e). promo_prioridade p = 1) \<longrightarrow>
      sorveteriaAddPromocao agora body s =
        (Inl (ServiceError PRIORITY_CONFLICT (js ''Only one promotion can have priority 1'') 400), s)) \<and>
   (promocaoCreateSchema body = Some dados \<and> sorveteria s = Some e \<and>
    length (promocoesAtivas e) < 3 \<and>
    (pc_prioridade body \<noteq> 1 \<or> (\<forall>p\<in>set (promocoesAtivas e). promo_prioridade p \<noteq> 1)) \<longrightarrow>
      (\<exists>p s'. sorveteriaAddPromocao agora body s = (Inr p, s') \<and>
         promo_prioridade p = pc_prioridade body \<and>
         map_option promocoesAtivas (sorveteria s') = Some (promocoesAtivas e @ [p])))"
proof (intro conjI impI; (elim conjE)?)
  assume "alcancavel amb s" "sorveteria s = Some e"
  from alcancavel_promocoes[OF this] show "length (promocoesAtivas e) \<le> 3"
    by (simp add: MAX_PROMOCOES_def)
next
  assume "alcancavel amb s" "sorveteria s = Some e"
  from alcancavel_promocoes[OF this]
  show "length (filter (\<lambda>p. promo_prioridade p = 1) (promocoesAtivas e)) \<le> 1"
    by simp
next
  assume h: "promocaoCreateSchema body = Some dados" "sorveteria s = Some e"
    and l: "3 \<le> length (promocoesAtivas e)"
  from l have "MAX_PROMOCOES \<le> length (promocoesAtivas e)" by (simp add: MAX_PROMOCOES_def)
  from sorveteriaAddPromocao_cheio[OF h this]
  show "sorveteriaAddPromocao agora body s =
        (Inl (ServiceError LIMIT_EXCEEDED (js ''Maximum of 3 active promotions allowed'') 400), s)" .
next
  assume h: "promocaoCreateSchema body = Some dados" "sorveteria s = Some e"
    and l: "length (promocoesAtivas e) < 3" and p: "pc_prioridade body = 1"
    and x: "\<exists>p\<in>set (promocoesAtivas e). promo_prioridade p = 1"
  from l have l': "length (promocoesAtivas e) < MAX_PROMOCOES" by (simp add: MAX_PROMOCOES_def)
  from p promocaoCreateSchema_prioridade[OF h(1)] have p': "pd_prioridade dados = 1" by simp
  from sorveteriaAddPromocao_conflito[OF h l' p' x]
  show "sorveteriaAddPromocao agora body s =
        (Inl (ServiceError PRIORITY_CONFLICT (js ''Only one promotion can have priority 1'') 400), s)" .
next
  assume h: "promocaoCreateSchema body = Some dados" "sorveteria s = Some e"
    and l: "length (promocoesAtivas e) < 3"
    and x: "pc_prioridade body \<noteq> 1 \<or> (\<forall>p\<in>set (promocoesAtivas e). promo_prioridade p \<noteq> 1)"
  from l have l': "length (promocoesAtivas e) < MAX_PROMOCOES" by (simp add: MAX_PROMOCOES_def)
  from x promocaoCreateSchema_prioridade[OF h(1)]
  have x': "pd_prioridade dados \<noteq> 1 \<or> (\<forall>p\<in>set (promocoesAtivas e). promo_prioridade p \<noteq> 1)"
    by simp
  from sorveteriaAddPromocao_livre[OF h l' x', of agora] promocaoCreateSchema_prioridade[OF h(1)]
  show "\<exists>p s'. sorveteriaAddPromocao agora body s = (Inr p, s') \<and>
         promo_prioridade p = pc_prioridade body \<and>
         map_option promocoesAtivas (sorveteria s') = Some (promocoesAtivas e @ [p])"
    by simp
qed

theorem C5_promotion_limits_witness:
  "alcancavel amb_exemplo (adicionar_promocao_exemplo 1 store_exemplo) \<and>
   map promo_prioridade (promocoes_de (adicionar_promocao_exemplo 1 store_exemplo)) = [1] \<and>
   sorveteriaAddPromocao agora_exemplo (promocao_body 1) (adicionar_promocao_exemplo 1 store_exemplo) =
     (Inl (ServiceError PRIORITY_CONFLICT (js ''Only one promotion can have priority 1'') 400),
      adicionar_promocao_exemplo 1 store_exemplo) \<and>
   length (promocoes_de store_3_promocoes) \<le> 3"
proof -
  let ?s = "adicionar_promocao_exemplo 1 store_exemplo"
  let ?e = "the (sorveteria ?s)"
  let ?e3 = "the (sorveteria store_3_promocoes)"
  have a: "alcancavel amb_exemplo ?s"
    unfolding adicionar_promocao_exemplo_def
    by (intro alcancavel.addPromocao store_exemplo_alcancavel)
  have e: "sorveteria ?s = Some ?e" by code_simp
  have p: "map promo_prioridade (promocoes_de ?s) = [1]" by code_simp
  have l: "length (promocoesAtivas ?e) < 3" "pc_prioridade (promocao_body 1) = 1"
    by code_simp+
  have x: "\<exists>p\<in>set (promocoesAtivas ?e). promo_prioridade p = 1"
    by code_simp
  have e3: "sorveteria store_3_promocoes = Some ?e3" by code_simp
  note C5 = C5_promotion_limits[where amb = amb_exemplo and body = "promocao_body 1" and
      agora = agora_exemplo]
  from C5[where s = ?s and e = ?e] promocaoCreateSchema_exemplo e l x
  have c: "sorveteriaAddPromocao agora_exemplo (promocao_body 1) ?s =
     (Inl (ServiceError PRIORITY_CONFLICT (js ''Only one promotion can have priority 1'') 400), ?s)"
    by fast
  from C5[where s = store_3_promocoes and e = ?e3] store_3_promocoes_alcancavel e3
  have "length (promocoesAtivas ?e3) \<le> 3"
    by fast
  then have d: "length (promocoes_de store_3_promocoes) \<le> 3"
    by (cases "sorveteria store_3_promocoes") (simp_all add: promocoes_de_def)
  from a p c d show ?thesis by simp
qed

section \<open>C6: the required words of history and differentiators\<close>

lemma js_includes_iff: "js_includes s el \<longleftrightarrow> (\<exists>p q. s = p @ el @ q)"
proof (induction s)
  case Nil
  show ?case by auto
next
  case (Cons c cs)
  have "(\<exists>p q. c # cs = p @ el @ q) \<longleftrightarrow>
      (\<exists>q. c # cs = el @ q) \<or> (\<exists>p q. cs = p @ el @ q)"
  proof
    assume "\<exists>p q. c # cs = p @ el @ q"
    then obtain p q where pq: "c # cs = p @ el @ q" by blast
    show "(\<exists>q. c # cs = el @ q) \<or> (\<exists>p q. cs = p @ el @ q)"
    proof (cases p)
      case Nil
      with pq show ?thesis by auto
    next
      case (Cons a p')
      with pq have "cs = p' @ el @ q" by simp
      then show ?thesis by blast
    qed
  next
    assume "(\<exists>q. c # cs = el @ q) \<or> (\<exists>p q. cs = p @ el @ q)"
    then show "\<exists>p q. c # cs = p @ el @ q"
    proof
      assume "\<exists>q. c # cs = el @ q"
      then obtain q where "c # cs = [] @ el @ q" by auto
      then show ?thesis by blast
    next
      assume "\<exists>p q. cs = p @ el @ q"
      then obtain p q where "c # cs = (c # p) @ el @ q" by auto
      then show ?thesis by blast
    qed
  qed
  moreover have "(take (length el) (c # cs) = el) \<longleftrightarrow> (\<exists>q. c # cs = el @ q)"
    by (metis append_eq_conv_conj)
  ultimately show ?case using Cons.IH by simp
qed

text \<open>
  C6. For a structurally valid creation request: if a required word of the history is
  missing, the operation fails with VALIDATION_ERROR and a message that lists the missing
  words of the history; if the history has its words and a required word of the
  differentiators is missing, it fails with VALIDATION_ERROR and a message that lists the
  missing words of the differentiators; in both cases the store stays as it was. The words
  listed are exactly the required words that do not occur as a substring of the lower-cased
  history, respectively of any lower-cased differentiator. With nothing missing the
  operation does not fail with VALIDATION_ERROR.
\<close>

theorem C6_required_words:
  assumes "createSchema amb body"
  shows
    "(missingElements amb body \<noteq> [] \<longrightarrow>
        sorveteriaCreateOrUpdate amb agora body s =
          (Inl (ServiceError VALIDATION_ERROR
                  (js ''Hist'' @ [243] @ js ''ria deve incluir: '' @
                   join (js '', '') (missingElements amb body)) 400), s)) \<and>
     (missingElements amb body = [] \<and> missingDiferenciais amb body \<noteq> [] \<longrightarrow>
        sorveteriaCreateOrUpdate amb agora body s =
          (Inl (ServiceError VALIDATION_ERROR
                  (js ''Diferenciais devem incluir: '' @
                   join (js '', '') (missingDiferenciais amb body)) 400), s)) \<and>
     missingElements amb body =
       filter (\<lambda>el. \<not> (\<exists>p q. toLowerCase amb (c_historiaSorveteria body) = p @ el @ q))
         [js ''origem'', js ''tradi'' @ [231, 227] @ js ''o'', js ''qualidade''] \<and>
     missingDiferenciais amb body =
       filter (\<lambda>req. \<not> (\<exists>d\<in>set (c_diferenciais body). \<exists>p q. toLowerCase amb d = p @ req @ q))
         [js ''qualidade'', js ''tradi'' @ [231, 227] @ js ''o'', js ''atendimento''] \<and>
     (missingElements amb body = [] \<and> missingDiferenciais amb body = [] \<longrightarrow>
        (\<forall>msg c. fst (sorveteriaCreateOrUpdate amb agora body s) \<noteq>
           Inl (ServiceError VALIDATION_ERROR msg c)))"
proof (intro conjI impI; (elim conjE)?)
  assume "missingElements amb body \<noteq> []"
  with assms show "sorveteriaCreateOrUpdate amb agora body s =
          (Inl (ServiceError VALIDATION_ERROR
                  (js ''Hist'' @ [243] @ js ''ria deve incluir: '' @
                   join (js '', '') (missingElements amb body)) 400), s)"
    by (simp add: sorveteriaCreateOrUpdate_def)
next
  assume "missingElements amb body = []" "missingDiferenciais amb body \<noteq> []"
  with assms show "sorveteriaCreateOrUpdate amb agora body s =
          (Inl (ServiceError VALIDATION_ERROR
                  (js ''Diferenciais devem incluir: '' @
                   join (js '', '') (missingDiferenciais amb body)) 400), s)"
    by (simp add: sorveteriaCreateOrUpdate_def)
next
  show "missingElements amb body =
       filter (\<lambda>el. \<not> (\<exists>p q. toLowerCase amb (c_historiaSorveteria body) = p @ el @ q))
         [js ''origem'', js ''tradi'' @ [231, 227] @ js ''o'', js ''qualidade'']"
    by (simp only: missingElements_def Let_def requiredElements_def js_includes_iff)
next
  show "missingDiferenciais amb body =
       filter (\<lambda>req. \<not> (\<exists>d\<in>set (c_diferenciais body). \<exists>p q. toLowerCase amb d = p @ req @ q))
         [js ''qualidade'', js ''tradi'' @ [231, 227] @ js ''o'', js ''atendimento'']"
    by (simp only: missingDiferenciais_def Let_def requiredDiferenciais_def js_includes_iff
        list_ex_iff set_map bex_simps image_iff) auto
next
  assume m: "missingElements amb body = []" "missingDiferenciais amb body = []"
  show "\<forall>msg c. fst (sorveteriaCreateOrUpdate amb agora body s) \<noteq>
           Inl (ServiceError VALIDATION_ERROR msg c)"
  proof (intro allI)
    fix msg c
    obtain e s1 where st: "store_set agora
                 \<lparr>d_nomeSorveteria = c_nomeSorveteria body,
                  d_logotipo = c_logotipo body,
                  d_slogan = ou_null (c_slogan body),
                  d_historiaSorveteria = c_historiaSorveteria body,
                  d_anoFundacao = c_anoFundacao body,
                  d_diferenciais = c_diferenciais body,
                  d_fundadores = c_fundadores body,
                  d_horariosSemana = c_horariosSemana body,
                  d_horariosEspeciais = ou_vazio (c_horariosEspeciais body),
                  d_statusFuncionamento = Fechado,
                  d_fotosAmbiente = [],
                  d_depoimentos = [],
                  d_avaliacaoMedia = None,
                  d_totalAvaliacoes = 0,
                  d_promocoesAtivas = [],
                  d_missao = ou_null (c_missao body),
                  d_visao = ou_null (c_visao body),
                  d_valores = ou_vazio (c_valores body)\<rparr> s = (e, s1)"
      by (cases "store_set agora
                 \<lparr>d_nomeSorveteria = c_nomeSorveteria body,
                  d_logotipo = c_logotipo body,
                  d_slogan = ou_null (c_slogan body),
                  d_historiaSorveteria = c_historiaSorveteria body,
                  d_anoFundacao = c_anoFundacao body,
                  d_diferenciais = c_diferenciais body,
                  d_fundadores = c_fundadores body,
                  d_horariosSemana = c_horariosSemana body,
                  d_horariosEspeciais = ou_vazio (c_horariosEspeciais body),
                  d_statusFuncionamento = Fechado,
                  d_fotosAmbiente = [],
                  d_depoimentos = [],
                  d_avaliacaoMedia = None,
                  d_totalAvaliacoes = 0,
                  d_promocoesAtivas = [],
                  d_missao = ou_null (c_missao body),
                  d_visao = ou_null (c_visao body),
                  d_valores = ou_vazio (c_valores body)\<rparr> s") blast
    show "fst (sorveteriaCreateOrUpdate amb agora body s) \<noteq>
           Inl (ServiceError VALIDATION_ERROR msg c)"
      using assms m st
      by (simp add: sorveteriaCreateOrUpdate_def split: option.splits)
  qed
qed

theorem C6_required_words_witness:
  "createSchema amb_exemplo body_sem_origem \<and>
   sorveteriaCreateOrUpdate amb_exemplo agora_exemplo body_sem_origem store_exemplo =
     (Inl (ServiceError VALIDATION_ERROR
             (js ''Hist'' @ [243] @ js ''ria deve incluir: origem, qualidade'') 400),
      store_exemplo) \<and>
   createSchema amb_exemplo body_sem_atendimento \<and>
   sorveteriaCreateOrUpdate amb_exemplo agora_exemplo body_sem_atendimento store_inicial =
     (Inl (ServiceError VALIDATION_ERROR (js ''Diferenciais devem incluir: atendimento'') 400),
      store_inicial)"
proof -
  have v1: "createSchema amb_exemplo body_sem_origem" by code_simp
  have m1: "missingElements amb_exemplo body_sem_origem = [js ''origem'', js ''qualidade'']"
    by code_simp
  have j1: "js ''Hist'' @ [243] @ js ''ria deve incluir: '' @
      join (js '', '') [js ''origem'', js ''qualidade''] =
      js ''Hist'' @ [243] @ js ''ria deve incluir: origem, qualidade''"
    by code_simp
  have v2: "createSchema amb_exemplo body_sem_atendimento" by code_simp
  have m2: "missingElements amb_exemplo body_sem_atendimento = []"
    "missingDiferenciais amb_exemplo body_sem_atendimento = [js ''atendimento'']"
    by code_simp+
  have j2: "js ''Diferenciais devem incluir: '' @ join (js '', '') [js ''atendimento''] =
      js ''Diferenciais devem incluir: atendimento''"
    by code_simp
  have r1: "sorveteriaCreateOrUpdate amb_exemplo agora_exemplo body_sem_origem store_exemplo =
     (Inl (ServiceError VALIDATION_ERROR
             (js ''Hist'' @ [243] @ js ''ria deve incluir: origem, qualidade'') 400),
      store_exemplo)"
  proof -
    have ne: "missingElements amb_exemplo body_sem_origem \<noteq> []"
      unfolding m1 by simp
    from conjunct1[OF C6_required_words[OF v1, of agora_exemplo store_exemplo]] ne
    have "sorveteriaCreateOrUpdate amb_exemplo agora_exemplo body_sem_origem store_exemplo =
          (Inl (ServiceError VALIDATION_ERROR
                  (js ''Hist'' @ [243] @ js ''ria deve incluir: '' @
                   join (js '', '') (missingElements amb_exemplo body_sem_origem)) 400),
           store_exemplo)"
      by (rule mp)
    then show ?thesis unfolding m1 j1 .
  qed
  have r2: "sorveteriaCreateOrUpdate amb_exemplo agora_exemplo body_sem_atendimento store_inicial =
     (Inl (ServiceError VALIDATION_ERROR (js ''Diferenciais devem incluir: atendimento'') 400),
      store_inicial)"
  proof -
    have ne: "missingElements amb_exemplo body_sem_atendimento = [] \<and>
        missingDiferenciais amb_exemplo body_sem_atendimento \<noteq> []"
      unfolding m2 by simp
    from conjunct1[OF conjunct2[OF C6_required_words[OF v2, of agora_exemplo store_inicial]]] ne
    have "sorveteriaCreateOrUpdate amb_exemplo agora_exemplo body_sem_atendimento store_inicial =
          (Inl (ServiceError VALIDATION_ERROR
                  (js ''Diferenciais devem incluir: '' @
                   join (js '', '') (missingDiferenciais amb_exemplo body_sem_atendimento)) 400),
           store_inicial)"
      by (rule mp)
    then show ?thesis unfolding m2 j2 .
  qed
  from v1 r1 v2 r2 show ?thesis by simp
qed

section \<open>C3: the average rating\<close>
















lemma media_aprovados_campos [simp]:
  "media_aprovados (e\<lparr>avaliacaoMedia := m\<rparr>) = media_aprovados e"
  "media_aprovados (e\<lparr>totalAvaliacoes := t\<rparr>) = media_aprovados e"
  "aprovados (e\<lparr>avaliacaoMedia := m\<rparr>) = aprovados e"
  "aprovados (e\<lparr>totalAvaliacoes := t\<rparr>) = aprovados e"
  by (simp_all add: media_aprovados_def aprovados_def)














end
